theory Spec2Isabelle
  imports Main "HOL-Library.Word" "HOL-Library.AList"
begin

unbundle bit_operations_syntax

section \<open>JavaScript values\<close>

text \<open>
  A JavaScript string is a sequence of UTF-16 code units; \<open>length\<close>, \<open>startsWith\<close> and
  \<open>slice\<close> count code units. \<open>ustr\<close> embeds an ASCII literal of the source.
\<close>

type_synonym ustring = "16 word list"

definition ustr :: "string \<Rightarrow> ustring" where
  "ustr s = map of_char s"

definition startsWith :: "ustring \<Rightarrow> ustring \<Rightarrow> bool" where
  "startsWith s p = (take (length p) s = p)"

definition slice0 :: "nat \<Rightarrow> ustring \<Rightarrow> ustring" where
  \<comment> \<open>\<open>s.slice(0, n)\<close>\<close>
  "slice0 n s = take n s"

text \<open>
  Values that come out of \<open>JSON.parse\<close> and go into \<open>JSON.stringify\<close>. A number is
  carried as the bit pattern of its IEEE-754 double; no arithmetic is done on it. An
  object is the list of its properties in property order; \<open>map_of\<close> reads a property.
\<close>

datatype json =
    JNull
  | JBool bool
  | JNum "64 word"
  | JStr ustring
  | JArr "json list"
  | JObj "(ustring \<times> json) list"

text \<open>A value held in a variable or property: \<open>undefined\<close>, or a JSON value.\<close>

datatype jsval = Undefined | Val json

type_synonym jsobj = "(ustring \<times> jsval) list"

definition is_nan :: "64 word \<Rightarrow> bool" where
  "is_nan w = (drop_bit 52 w AND 0x7FF = 0x7FF \<and> w AND 0xFFFFFFFFFFFFF \<noteq> 0)"

definition is_finite :: "64 word \<Rightarrow> bool" where
  "is_finite w = (drop_bit 52 w AND 0x7FF \<noteq> 0x7FF)"

definition is_zero :: "64 word \<Rightarrow> bool" where
  \<comment> \<open>\<open>+0\<close> or \<open>-0\<close>\<close>
  "is_zero w = (w AND 0x7FFFFFFFFFFFFFFF = 0)"

text \<open>Truthiness, as \<open>!v\<close>, \<open>a || b\<close> and \<open>c ? x : y\<close> test it.\<close>

fun truthy :: "jsval \<Rightarrow> bool" where
  "truthy Undefined = False"
| "truthy (Val JNull) = False"
| "truthy (Val (JBool b)) = b"
| "truthy (Val (JNum w)) = (\<not> is_zero w \<and> \<not> is_nan w)"
| "truthy (Val (JStr s)) = (s \<noteq> [])"
| "truthy (Val (JArr xs)) = True"
| "truthy (Val (JObj ps)) = True"

definition or_else :: "jsval \<Rightarrow> jsval \<Rightarrow> jsval" where
  \<comment> \<open>\<open>a || b\<close>\<close>
  "or_else a b = (if truthy a then a else b)"

text \<open>
  An object literal \<open>{k1: v1, ...src, k2: v2}\<close> defines its properties from left to
  right: a key already present keeps its place and takes the new value, a new key is
  added at the end. A spread copies the own properties of its source in order.
\<close>

datatype prop_init = Prop ustring jsval | Spread jsobj

fun define_prop :: "jsobj \<Rightarrow> prop_init \<Rightarrow> jsobj" where
  "define_prop obj (Prop k v) = AList.update k v obj"
| "define_prop obj (Spread src) = foldl (\<lambda>acc (k, v). AList.update k v acc) obj src"

definition obj_lit :: "prop_init list \<Rightarrow> jsobj" where
  "obj_lit inits = foldl define_prop [] inits"

text \<open>
  \<open>JSON.stringify\<close>, up to the text encoding: a line of a \<open>.jsonl\<close> file is represented
  by the JSON document that \<open>JSON.parse\<close> reads back from it. Properties whose value is
  \<open>undefined\<close> are left out; a non-finite number is written as \<open>null\<close>, \<open>-0\<close> as \<open>0\<close>.
\<close>

primrec json_out :: "json \<Rightarrow> json" where
  "json_out JNull = JNull"
| "json_out (JBool b) = JBool b"
| "json_out (JNum w) = (if is_finite w then (if is_zero w then JNum 0 else JNum w) else JNull)"
| "json_out (JStr s) = JStr s"
| "json_out (JArr xs) = JArr (map json_out xs)"
| "json_out (JObj ps) = JObj (map (map_prod id json_out) ps)"

fun stringify_props :: "jsobj \<Rightarrow> (ustring \<times> json) list" where
  "stringify_props [] = []"
| "stringify_props ((k, Undefined) # ps) = stringify_props ps"
| "stringify_props ((k, Val j) # ps) = (k, json_out j) # stringify_props ps"

definition JSON_stringify :: "jsobj \<Rightarrow> json" where
  "JSON_stringify obj = JObj (stringify_props obj)"

section \<open>The world outside the process\<close>

datatype path = DATA_DIR | LEADS_FILE | EVENTS_FILE

record sms =
  sms_from :: ustring
  sms_to :: ustring
  sms_body :: ustring

datatype error =
    ZodError                 \<comment> \<open>the argument schema rejected the arguments\<close>
  | JsError ustring          \<comment> \<open>\<open>throw new Error(msg)\<close>\<close>
  | TypeError                \<comment> \<open>a method called on a value that has none\<close>
  | FsError                  \<comment> \<open>a \<open>node:fs\<close> call threw\<close>
  | GatewayError             \<comment> \<open>\<open>messages.create\<close> rejected\<close>
  | ConnectError             \<comment> \<open>\<open>session.connect\<close> rejected\<close>

text \<open>
  What the process did to its collaborators, in order: a line appended to a file, a call
  of the messaging gateway, or a connection request to the voice backend (calls are
  recorded whether or not the other side accepts them).
\<close>

datatype effect = Appended path json | GatewayCall sms | BackendConnect ustring

record world =
  dir_exists :: bool                         \<comment> \<open>\<open>data/\<close> exists\<close>
  files :: "path \<Rightarrow> json list option"        \<comment> \<open>lines of a file; \<open>None\<close>: no such file\<close>
  fs_ok :: bool                              \<comment> \<open>the file system accepts writes\<close>
  now :: ustring                             \<comment> \<open>\<open>new Date().toISOString()\<close>\<close>
  uuids :: "nat \<Rightarrow> ustring"                  \<comment> \<open>the values \<open>randomUUID()\<close> returns, in order\<close>
  uuid_ix :: nat                             \<comment> \<open>how many have been drawn\<close>
  gateway :: "sms \<Rightarrow> ustring option"         \<comment> \<open>the provider's answer: a message sid, or a rejection\<close>
  backend_up :: bool                         \<comment> \<open>the voice backend accepts a connection\<close>
  trace :: "effect list"

type_synonym 'a io = "world \<Rightarrow> (error + 'a) \<times> world"

definition bind_io :: "'a io \<Rightarrow> ('a \<Rightarrow> 'b io) \<Rightarrow> 'b io" where
  "bind_io m f w = (case m w of (Inl e, w') \<Rightarrow> (Inl e, w') | (Inr x, w') \<Rightarrow> f x w')"

definition return_io :: "'a \<Rightarrow> 'a io" where
  "return_io x w = (Inr x, w)"

definition file_lines :: "world \<Rightarrow> path \<Rightarrow> json list" where
  "file_lines w p = (case files w p of None \<Rightarrow> [] | Some ls \<Rightarrow> ls)"

definition existsSync :: "path \<Rightarrow> world \<Rightarrow> bool" where
  "existsSync p w = (case p of DATA_DIR \<Rightarrow> dir_exists w | _ \<Rightarrow> files w p \<noteq> None)"

definition mkdirSync :: "unit io" where
  \<comment> \<open>\<open>fs.mkdirSync(DATA_DIR, { recursive: true })\<close>\<close>
  "mkdirSync w = (if fs_ok w then (Inr (), w\<lparr>dir_exists := True\<rparr>) else (Inl FsError, w))"

definition writeFileSync_empty :: "path \<Rightarrow> unit io" where
  \<comment> \<open>\<open>fs.writeFileSync(p, "")\<close>\<close>
  "writeFileSync_empty p w =
     (if fs_ok w \<and> dir_exists w then (Inr (), w\<lparr>files := (files w)(p := Some [])\<rparr>)
      else (Inl FsError, w))"

definition appendFileSync :: "path \<Rightarrow> json \<Rightarrow> unit io" where
  \<comment> \<open>\<open>fs.appendFileSync(p, line + "\n", "utf8")\<close>; creates the file when it is missing\<close>
  "appendFileSync p line w =
     (if fs_ok w \<and> dir_exists w
      then (Inr (), w\<lparr>files := (files w)(p := Some (file_lines w p @ [line])),
                       trace := trace w @ [Appended p line]\<rparr>)
      else (Inl FsError, w))"

definition randomUUID :: "world \<Rightarrow> ustring \<times> world" where
  "randomUUID w = (uuids w (uuid_ix w), w\<lparr>uuid_ix := Suc (uuid_ix w)\<rparr>)"

definition messages_create :: "sms \<Rightarrow> ustring io" where
  \<comment> \<open>\<open>await twilioClient.messages.create(m)\<close>, giving \<open>res.sid\<close>\<close>
  "messages_create m w =
     (let w' = w\<lparr>trace := trace w @ [GatewayCall m]\<rparr>
      in case gateway w m of None \<Rightarrow> (Inl GatewayError, w') | Some sid \<Rightarrow> (Inr sid, w'))"

section \<open>leadStore\<close>

definition ensureDataDir :: "unit io" where
  "ensureDataDir =
     bind_io (\<lambda>w. if \<not> existsSync DATA_DIR w then mkdirSync w else (Inr (), w))
       (\<lambda>_ w. if \<not> existsSync LEADS_FILE w then writeFileSync_empty LEADS_FILE w else (Inr (), w))"

definition appendLead :: "jsobj \<Rightarrow> unit io" where
  "appendLead lead =
     bind_io ensureDataDir (\<lambda>_. appendFileSync LEADS_FILE (JSON_stringify lead))"

definition appendEvent :: "jsobj \<Rightarrow> unit io" where
  "appendEvent event =
     bind_io ensureDataDir
       (\<lambda>_ w. appendFileSync EVENTS_FILE
                 (JSON_stringify (obj_lit [Prop (ustr ''ts'') (Val (JStr (now w))), Spread event])) w)"

section \<open>Argument schemas (zod)\<close>

text \<open>
  The tools declare their arguments with \<open>z.object({...})\<close>. Parsing reads each declared
  key from the raw object, checks it, and builds a new object from the declared keys
  alone: a key of the raw object that the schema does not declare is not copied.
\<close>

datatype ztype =
    ZString                  \<comment> \<open>\<open>z.string()\<close>\<close>
  | ZStringMax nat           \<comment> \<open>\<open>z.string().max(n)\<close>\<close>
  | ZEnum "ustring list"     \<comment> \<open>\<open>z.enum([...])\<close>\<close>

datatype zfield =
    Required ztype
  | Optional ztype           \<comment> \<open>\<open>.optional()\<close>\<close>
  | Default ztype json       \<comment> \<open>\<open>.default(v)\<close>\<close>

fun z_accepts :: "ztype \<Rightarrow> json \<Rightarrow> bool" where
  "z_accepts ZString (JStr s) = True"
| "z_accepts (ZStringMax n) (JStr s) = (length s \<le> n)"
| "z_accepts (ZEnum vs) (JStr s) = (s \<in> set vs)"
| "z_accepts t j = False"

fun z_field :: "zfield \<Rightarrow> jsval \<Rightarrow> error + jsval" where
  "z_field (Required t) Undefined = Inl ZodError"
| "z_field (Required t) (Val j) = (if z_accepts t j then Inr (Val j) else Inl ZodError)"
| "z_field (Optional t) Undefined = Inr Undefined"
| "z_field (Optional t) (Val j) = (if z_accepts t j then Inr (Val j) else Inl ZodError)"
| "z_field (Default t d) Undefined = Inr (Val d)"
| "z_field (Default t d) (Val j) = (if z_accepts t j then Inr (Val j) else Inl ZodError)"

definition raw_prop :: "(ustring \<times> json) list \<Rightarrow> ustring \<Rightarrow> jsval" where
  "raw_prop ps k = (case map_of ps k of None \<Rightarrow> Undefined | Some j \<Rightarrow> Val j)"

text \<open>
  A key whose parsed value is \<open>undefined\<close> is set only when the raw object has the key;
  a raw object read from JSON holds no \<open>undefined\<close>, so such a key is left unset.
\<close>

fun z_fields :: "(ustring \<times> zfield) list \<Rightarrow> (ustring \<times> json) list \<Rightarrow> error + jsobj" where
  "z_fields [] ps = Inr []"
| "z_fields ((k, f) # shape) ps =
     (case z_field f (raw_prop ps k) of
        Inl e \<Rightarrow> Inl e
      | Inr v \<Rightarrow>
          (case z_fields shape ps of
             Inl e \<Rightarrow> Inl e
           | Inr out \<Rightarrow> Inr (case v of Undefined \<Rightarrow> out | Val j \<Rightarrow> (k, v) # out)))"

definition z_object :: "(ustring \<times> zfield) list \<Rightarrow> json \<Rightarrow> error + jsobj" where
  "z_object shape raw = (case raw of JObj ps \<Rightarrow> z_fields shape ps | _ \<Rightarrow> Inl ZodError)"

text \<open>\<open>tool({parameters, execute})\<close>: the arguments are parsed, then \<open>execute\<close> runs.\<close>

definition tool :: "(ustring \<times> zfield) list \<Rightarrow> (jsobj \<Rightarrow> 'a io) \<Rightarrow> json \<Rightarrow> 'a io" where
  "tool parameters execute raw w =
     (case z_object parameters raw of Inl e \<Rightarrow> (Inl e, w) | Inr input \<Rightarrow> execute input w)"

definition get_prop :: "jsobj \<Rightarrow> ustring \<Rightarrow> jsval" where
  \<comment> \<open>\<open>obj.k\<close>, and what destructuring \<open>{k}\<close> binds\<close>
  "get_prop obj k = (case map_of obj k of None \<Rightarrow> Undefined | Some v \<Rightarrow> v)"

datatype tool_result = backgroundResult ustring

section \<open>server: configuration\<close>

text \<open>\<open>Number(s)\<close> of an environment string is not evaluated: the port keeps the string.\<close>

datatype port = Port nat | PortOfString ustring

datatype twilio_client = TwilioClient ustring ustring

record config =
  PORT :: port
  PUBLIC_HOST :: "ustring option"
  BUSINESS_NAME :: ustring
  ONCALL_PHONE :: ustring
  OPENAI_API_KEY :: ustring
  TWILIO_ACCOUNT_SID :: ustring
  TWILIO_AUTH_TOKEN :: ustring
  TWILIO_FROM_NUMBER :: ustring
  twilioClient :: "twilio_client option"

text \<open>
  The module's top-level code ends in \<open>process.exit(1)\<close> after printing a line, in an
  uncaught exception of the gateway library's constructor, or with its constants set, and
  only then goes on to register the routes and to listen.
\<close>

datatype startup = ProcessExit nat ustring | Uncaught error | Configured config

type_synonym env = "ustring \<Rightarrow> ustring option"

definition env_or :: "env \<Rightarrow> ustring \<Rightarrow> ustring \<Rightarrow> ustring" where
  \<comment> \<open>\<open>process.env[name] || dflt\<close>\<close>
  "env_or env name dflt = (case env name of None \<Rightarrow> dflt | Some v \<Rightarrow> if v = [] then dflt else v)"

definition mustEnv :: "env \<Rightarrow> ustring \<Rightarrow> (nat \<times> ustring) + ustring" where
  "mustEnv env name =
     (case env name of
        None \<Rightarrow> Inl (1, ustr ''Missing env var: '' @ name)
      | Some v \<Rightarrow> if v = [] then Inl (1, ustr ''Missing env var: '' @ name) else Inr v)"

definition load_config :: "(ustring \<Rightarrow> ustring \<Rightarrow> error + twilio_client) \<Rightarrow> env \<Rightarrow> startup" where
  "load_config twilio env =
     (let port = (case env (ustr ''PORT'') of
                    None \<Rightarrow> Port 5050
                  | Some v \<Rightarrow> if v = [] then Port 5050 else PortOfString v);
          public_host = env (ustr ''PUBLIC_HOST'');
          business_name = env_or env (ustr ''BUSINESS_NAME'') (ustr ''NY Plumbing (Pilot)'')
      in case mustEnv env (ustr ''ONCALL_PHONE'') of
           Inl (code, msg) \<Rightarrow> ProcessExit code msg
         | Inr oncall_phone \<Rightarrow>
             (case mustEnv env (ustr ''OPENAI_API_KEY'') of
                Inl (code, msg) \<Rightarrow> ProcessExit code msg
              | Inr openai_api_key \<Rightarrow>
                  (let sid = env_or env (ustr ''TWILIO_ACCOUNT_SID'') [];
                       token = env_or env (ustr ''TWILIO_AUTH_TOKEN'') [];
                       from_number = env_or env (ustr ''TWILIO_FROM_NUMBER'') [];
                       cfg = \<lparr>PORT = port, PUBLIC_HOST = public_host,
                              BUSINESS_NAME = business_name, ONCALL_PHONE = oncall_phone,
                              OPENAI_API_KEY = openai_api_key, TWILIO_ACCOUNT_SID = sid,
                              TWILIO_AUTH_TOKEN = token, TWILIO_FROM_NUMBER = from_number,
                              twilioClient = None\<rparr>
                   in if sid \<noteq> [] \<and> token \<noteq> []
                      then (case twilio sid token of
                              Inl e \<Rightarrow> Uncaught e
                            | Inr c \<Rightarrow> Configured (cfg\<lparr>twilioClient := Some c\<rparr>))
                      else Configured cfg)))"

definition gateway_unconfigured :: "config \<Rightarrow> bool" where
  \<comment> \<open>\<open>!twilioClient || !TWILIO_FROM_NUMBER\<close>\<close>
  "gateway_unconfigured cfg = (twilioClient cfg = None \<or> TWILIO_FROM_NUMBER cfg = [])"

section \<open>server: tools\<close>

definition assertE164 :: "ustring \<Rightarrow> error + unit" where
  "assertE164 phone =
     (if \<not> startsWith phone (ustr ''+'') \<or> length phone < 11
      then Inl (JsError (ustr ''Phone must be E.164 format like +15551234567''))
      else Inr ())"

definition createLead_parameters :: "(ustring \<times> zfield) list" where
  "createLead_parameters =
     [(ustr ''callerPhone'', Optional ZString),
      (ustr ''callerName'', Optional ZString),
      (ustr ''serviceAddress'', Optional ZString),
      (ustr ''issue'', Optional ZString),
      (ustr ''urgency'',
         Default (ZEnum [ustr ''low'', ustr ''normal'', ustr ''emergency'']) (JStr (ustr ''normal''))),
      (ustr ''preferredTime'', Optional ZString),
      (ustr ''notes'', Optional ZString)]"

definition make_lead :: "config \<Rightarrow> ustring \<Rightarrow> ustring \<Rightarrow> jsobj \<Rightarrow> jsobj" where
  "make_lead cfg lead_id created_at input =
     obj_lit [Prop (ustr ''id'') (Val (JStr lead_id)),
              Prop (ustr ''createdAt'') (Val (JStr created_at)),
              Prop (ustr ''businessName'') (Val (JStr (BUSINESS_NAME cfg))),
              Spread input,
              Prop (ustr ''source'') (Val (JStr (ustr ''twilio_call'')))]"

definition createLead_execute :: "config \<Rightarrow> jsobj \<Rightarrow> tool_result io" where
  "createLead_execute cfg input w =
     (let (lead_id, w1) = randomUUID w;
          lead = make_lead cfg lead_id (now w1) input
      in bind_io (appendLead lead)
           (\<lambda>_. return_io (backgroundResult (ustr ''Lead stored with id '' @ lead_id))) w1)"

definition createLeadTool :: "config \<Rightarrow> json \<Rightarrow> tool_result io" where
  "createLeadTool cfg = tool createLead_parameters (createLead_execute cfg)"

definition sendSms_parameters :: "(ustring \<times> zfield) list" where
  "sendSms_parameters =
     [(ustr ''to'', Required ZString),
      (ustr ''message'', Required (ZStringMax 480))]"

definition sms_attempt_event :: "ustring \<Rightarrow> ustring \<Rightarrow> jsobj" where
  "sms_attempt_event to message =
     obj_lit [Prop (ustr ''type'') (Val (JStr (ustr ''sms_attempt''))),
              Prop (ustr ''to'') (Val (JStr to)),
              Prop (ustr ''messagePreview'') (Val (JStr (slice0 80 message)))]"

definition opt_out_suffix :: ustring where
  "opt_out_suffix = [0x0A, 0x0A] @ ustr ''Reply STOP to opt out.''"

text \<open>
  The parsed arguments have the static type \<open>{to: string; message: string}\<close>. The
  destructuring is written as a case on the two values; its last branch stands for a
  value outside that type and is never taken after parsing.
\<close>

definition sendSms_execute :: "config \<Rightarrow> jsobj \<Rightarrow> tool_result io" where
  "sendSms_execute cfg input w =
     (case (get_prop input (ustr ''to''), get_prop input (ustr ''message'')) of
        (Val (JStr to), Val (JStr message)) \<Rightarrow>
          (case assertE164 to of
             Inl e \<Rightarrow> (Inl e, w)
           | Inr _ \<Rightarrow>
               bind_io (appendEvent (sms_attempt_event to message))
                 (\<lambda>_. if gateway_unconfigured cfg
                       then return_io (backgroundResult (ustr ''Twilio not configured; SMS skipped.''))
                       else bind_io
                              (messages_create \<lparr>sms_from = TWILIO_FROM_NUMBER cfg, sms_to = to,
                                                sms_body = message @ opt_out_suffix\<rparr>)
                              (\<lambda>sid. return_io (backgroundResult (ustr ''SMS sent: sid='' @ sid)))) w)
      | _ \<Rightarrow> (Inl TypeError, w))"

definition sendSmsTool :: "config \<Rightarrow> json \<Rightarrow> tool_result io" where
  "sendSmsTool cfg = tool sendSms_parameters (sendSms_execute cfg)"

definition escalate_parameters :: "(ustring \<times> zfield) list" where
  "escalate_parameters =
     [(ustr ''callerPhone'', Optional ZString),
      (ustr ''serviceAddress'', Optional ZString),
      (ustr ''issue'', Optional ZString),
      (ustr ''reason'', Default ZString (JStr (ustr ''emergency'')))]"

definition escalation_event :: "jsval \<Rightarrow> jsval \<Rightarrow> jsval \<Rightarrow> jsval \<Rightarrow> jsobj" where
  "escalation_event reason callerPhone serviceAddress issue =
     obj_lit [Prop (ustr ''type'') (Val (JStr (ustr ''escalation''))),
              Prop (ustr ''reason'') reason,
              Prop (ustr ''callerPhone'') callerPhone,
              Prop (ustr ''serviceAddress'') serviceAddress,
              Prop (ustr ''issue'') issue]"

text \<open>
  TypeScript types the destructured \<open>reason\<close> as \<open>string\<close> and the other three as
  \<open>string | undefined\<close>. \<open>the_string\<close> reads such a value inside a template literal;
  \<open>opt_line label v\<close> is \<open>(v ? `label${v}\n` : "")\<close>.
\<close>

fun the_string :: "jsval \<Rightarrow> ustring" where
  "the_string (Val (JStr s)) = s"
| "the_string v = []"

definition opt_line :: "ustring \<Rightarrow> jsval \<Rightarrow> ustring" where
  "opt_line label v = (if truthy v then label @ the_string v @ [0x0A] else [])"

text \<open>The four code units that open the alert text in the source file.\<close>

definition alert_mark :: ustring where
  "alert_mark = [0xF0, 0x178, 0x161, 0xA8]"

definition escalation_body :: "config \<Rightarrow> jsval \<Rightarrow> jsval \<Rightarrow> jsval \<Rightarrow> jsval \<Rightarrow> ustring" where
  "escalation_body cfg reason issue serviceAddress callerPhone =
     alert_mark @ ustr '' EMERGENCY LEAD ('' @ BUSINESS_NAME cfg @ ustr '')'' @ [0x0A] @
     ustr ''Reason: '' @ the_string reason @ [0x0A] @
     opt_line (ustr ''Issue: '') issue @
     opt_line (ustr ''Address: '') serviceAddress @
     opt_line (ustr ''Caller: '') callerPhone"

definition escalate_execute :: "config \<Rightarrow> jsobj \<Rightarrow> tool_result io" where
  "escalate_execute cfg input =
     (let callerPhone = get_prop input (ustr ''callerPhone'');
          serviceAddress = get_prop input (ustr ''serviceAddress'');
          issue = get_prop input (ustr ''issue'');
          reason = get_prop input (ustr ''reason'')
      in bind_io (appendEvent (escalation_event reason callerPhone serviceAddress issue))
           (\<lambda>_. if gateway_unconfigured cfg
                 then return_io (backgroundResult (ustr ''Twilio not configured; escalation SMS skipped.''))
                 else bind_io
                        (messages_create \<lparr>sms_from = TWILIO_FROM_NUMBER cfg, sms_to = ONCALL_PHONE cfg,
                                          sms_body = escalation_body cfg reason issue serviceAddress callerPhone\<rparr>)
                        (\<lambda>sid. return_io (backgroundResult (ustr ''Escalation SMS sent: sid='' @ sid)))))"

definition escalateTool :: "config \<Rightarrow> json \<Rightarrow> tool_result io" where
  "escalateTool cfg = tool escalate_parameters (escalate_execute cfg)"

definition logSummary_parameters :: "(ustring \<times> zfield) list" where
  "logSummary_parameters = [(ustr ''summary'', Required (ZStringMax 2000))]"

definition logSummary_execute :: "jsobj \<Rightarrow> tool_result io" where
  "logSummary_execute input =
     bind_io (appendEvent (obj_lit [Prop (ustr ''type'') (Val (JStr (ustr ''call_summary''))),
                                    Prop (ustr ''summary'') (get_prop input (ustr ''summary''))]))
       (\<lambda>_. return_io (backgroundResult (ustr ''Summary logged.'')))"

definition logSummaryTool :: "json \<Rightarrow> tool_result io" where
  "logSummaryTool = tool logSummary_parameters logSummary_execute"

section \<open>server: the media-stream route\<close>

definition evt_type :: "jsval \<Rightarrow> jsval" where
  \<comment> \<open>\<open>evt?.type\<close>\<close>
  "evt_type evt = (case evt of Val (JObj ps) \<Rightarrow> raw_prop ps (ustr ''type'') | _ \<Rightarrow> Undefined)"

definition transport_event_record :: "jsval \<Rightarrow> jsobj" where
  "transport_event_record evt =
     obj_lit [Prop (ustr ''type'') (Val (JStr (ustr ''transport_event''))),
              Prop (ustr ''evtType'') (or_else (evt_type evt) (Val (JStr (ustr ''unknown''))))]"

definition session_error_record :: "ustring \<Rightarrow> jsobj" where
  "session_error_record err_text =
     obj_lit [Prop (ustr ''type'') (Val (JStr (ustr ''session_error''))),
              Prop (ustr ''err'') (Val (JStr err_text))]"

text \<open>
  The two listeners. \<open>String(err)\<close> of a value of type \<open>unknown\<close> is taken as a
  parameter \<open>to_string\<close>.
\<close>

definition on_transport_event :: "jsval \<Rightarrow> unit io" where
  "on_transport_event evt = appendEvent (transport_event_record evt)"

definition on_error :: "('e \<Rightarrow> ustring) \<Rightarrow> 'e \<Rightarrow> unit io" where
  "on_error to_string err = appendEvent (session_error_record (to_string err))"

text \<open>
  The session object, as far as the route uses it: \<open>session.on(name, listener)\<close> adds a
  subscription, \<open>session.connect\<close> asks the backend for a connection and resolves or
  rejects.
\<close>

datatype listener = TransportListener | ErrorListener

record session =
  subscriptions :: "(ustring \<times> listener) list"

definition new_session :: session where
  "new_session = \<lparr>subscriptions = []\<rparr>"

definition session_on :: "ustring \<Rightarrow> listener \<Rightarrow> session \<Rightarrow> session" where
  "session_on name l s = s\<lparr>subscriptions := subscriptions s @ [(name, l)]\<rparr>"

definition session_connect :: "ustring \<Rightarrow> session \<Rightarrow> unit io" where
  "session_connect api_key s w =
     (let w' = w\<lparr>trace := trace w @ [BackendConnect api_key]\<rparr>
      in if backend_up w then (Inr (), w') else (Inl ConnectError, w'))"

definition media_stream :: "config \<Rightarrow> session io" where
  "media_stream cfg =
     (let session = session_on (ustr ''error'') ErrorListener
                      (session_on (ustr ''transport_event'') TransportListener new_session)
      in bind_io (session_connect (OPENAI_API_KEY cfg) session)
           (\<lambda>_. bind_io (appendEvent (obj_lit [Prop (ustr ''type'') (Val (JStr (ustr ''realtime_connected'')))]))
                   (\<lambda>_. return_io session)))"

section \<open>Notions used to state the results\<close>

definition ensured :: "world \<Rightarrow> world" where
  "ensured w =
     w\<lparr>dir_exists := True,
       files := (if files w LEADS_FILE = None then (files w)(LEADS_FILE := Some []) else files w)\<rparr>"

definition appended :: "path \<Rightarrow> json \<Rightarrow> world \<Rightarrow> world" where
  "appended p line w =
     w\<lparr>files := (files w)(p := Some (file_lines w p @ [line])),
       trace := trace w @ [Appended p line]\<rparr>"

definition event_line :: "ustring \<Rightarrow> jsobj \<Rightarrow> json" where
  "event_line t event = JSON_stringify (obj_lit [Prop (ustr ''ts'') (Val (JStr t)), Spread event])"

definition env_missing :: "env \<Rightarrow> ustring \<Rightarrow> bool" where
  "env_missing env name = (env name = None \<or> env name = Some [])"

definition sms_attempt_line_of :: "ustring \<Rightarrow> ustring \<Rightarrow> ustring \<Rightarrow> json" where
  "sms_attempt_line_of t to message =
     JObj [(ustr ''ts'', JStr t), (ustr ''type'', JStr (ustr ''sms_attempt'')),
           (ustr ''to'', JStr to), (ustr ''messagePreview'', JStr (take 80 message))]"

definition sms_of :: "config \<Rightarrow> ustring \<Rightarrow> ustring \<Rightarrow> sms" where
  "sms_of cfg to message =
     \<lparr>sms_from = TWILIO_FROM_NUMBER cfg, sms_to = to, sms_body = message @ opt_out_suffix\<rparr>"

definition free_text_fields :: "ustring list" where
  "free_text_fields = [ustr ''callerPhone'', ustr ''callerName'', ustr ''serviceAddress'',
                       ustr ''issue'', ustr ''preferredTime'', ustr ''notes'']"

definition tool_assigned_fields :: "ustring list" where
  "tool_assigned_fields = [ustr ''id'', ustr ''createdAt'', ustr ''businessName'', ustr ''source'']"

definition demo_world :: world where
  "demo_world =
     \<lparr>dir_exists = False, files = (\<lambda>p. None), fs_ok = True,
      now = ustr ''2026-01-01T00:00:00.000Z'',
      uuids = (\<lambda>n. ustr ''uuid-'' @ replicate n 0x61), uuid_ix = 0,
      gateway = (\<lambda>m. Some (ustr ''SM1'')), backend_up = True, trace = []\<rparr>"

definition demo_config :: config where
  "demo_config =
     \<lparr>PORT = Port 5050, PUBLIC_HOST = None, BUSINESS_NAME = ustr ''NY Plumbing (Pilot)'',
      ONCALL_PHONE = ustr ''+15550001111'', OPENAI_API_KEY = ustr ''sk-test'',
      TWILIO_ACCOUNT_SID = ustr ''AC1'', TWILIO_AUTH_TOKEN = ustr ''tok'',
      TWILIO_FROM_NUMBER = ustr ''+15550002222'',
      twilioClient = Some (TwilioClient (ustr ''AC1'') (ustr ''tok''))\<rparr>"


definition demo_env :: env where
  "demo_env = (\<lambda>name. None)(ustr ''ONCALL_PHONE'' := Some (ustr ''+15550001111''),
                               ustr ''OPENAI_API_KEY'' := Some (ustr ''sk-test''))"

definition bare_config :: config where
  "bare_config =
     \<lparr>PORT = Port 5050, PUBLIC_HOST = None, BUSINESS_NAME = ustr ''NY Plumbing (Pilot)'',
      ONCALL_PHONE = ustr ''+15550001111'', OPENAI_API_KEY = ustr ''sk-test'',
      TWILIO_ACCOUNT_SID = [], TWILIO_AUTH_TOKEN = [], TWILIO_FROM_NUMBER = [],
      twilioClient = None\<rparr>"

definition failing_twilio :: "ustring \<Rightarrow> ustring \<Rightarrow> error + twilio_client" where
  "failing_twilio sid token = Inl (JsError (ustr ''accountSid must start with AC''))"

definition demo_lead_args :: "(ustring \<times> json) list" where
  "demo_lead_args =
     [(ustr ''callerPhone'', JStr (ustr ''+15551234567'')), (ustr ''issue'', JStr (ustr ''burst pipe''))]"

definition forged_lead_args :: "(ustring \<times> json) list" where
  "forged_lead_args =
     [(ustr ''id'', JStr (ustr ''forged'')), (ustr ''createdAt'', JStr (ustr ''1999'')),
      (ustr ''businessName'', JStr (ustr ''Other'')), (ustr ''source'', JStr (ustr ''web'')),
      (ustr ''issue'', JStr (ustr ''leak''))]"

definition opt_field :: "ustring \<Rightarrow> jsval \<Rightarrow> (ustring \<times> json) list" where
  "opt_field k v = (case v of Undefined \<Rightarrow> [] | Val j \<Rightarrow> [(k, j)])"

definition escalation_reason :: "(ustring \<times> json) list \<Rightarrow> ustring" where
  "escalation_reason ps =
     (case raw_prop ps (ustr ''reason'') of Val (JStr s) \<Rightarrow> s | _ \<Rightarrow> ustr ''emergency'')"

definition escalation_line_of :: "ustring \<Rightarrow> (ustring \<times> json) list \<Rightarrow> json" where
  "escalation_line_of t ps =
     JObj ([(ustr ''ts'', JStr t), (ustr ''type'', JStr (ustr ''escalation'')),
            (ustr ''reason'', JStr (escalation_reason ps))] @
           opt_field (ustr ''callerPhone'') (raw_prop ps (ustr ''callerPhone'')) @
           opt_field (ustr ''serviceAddress'') (raw_prop ps (ustr ''serviceAddress'')) @
           opt_field (ustr ''issue'') (raw_prop ps (ustr ''issue'')))"

text \<open>
  The alert text, written out: the mark, the business name in brackets, the reason, and
  one labelled line for each of issue, address and caller that is a non-empty string.
\<close>

definition alert_line :: "ustring \<Rightarrow> jsval \<Rightarrow> ustring" where
  "alert_line label v =
     (case v of Val (JStr s) \<Rightarrow> (if s = [] then [] else label @ s @ [0x0A]) | _ \<Rightarrow> [])"

definition escalation_sms :: "config \<Rightarrow> (ustring \<times> json) list \<Rightarrow> sms" where
  "escalation_sms cfg ps =
     \<lparr>sms_from = TWILIO_FROM_NUMBER cfg, sms_to = ONCALL_PHONE cfg,
      sms_body = [0xF0, 0x178, 0x161, 0xA8] @ ustr '' EMERGENCY LEAD ('' @
                 BUSINESS_NAME cfg @ ustr '')'' @ [0x0A] @
                 ustr ''Reason: '' @ escalation_reason ps @ [0x0A] @
                 alert_line (ustr ''Issue: '') (raw_prop ps (ustr ''issue'')) @
                 alert_line (ustr ''Address: '') (raw_prop ps (ustr ''serviceAddress'')) @
                 alert_line (ustr ''Caller: '') (raw_prop ps (ustr ''callerPhone''))\<rparr>"

definition scenario_a_args :: "(ustring \<times> json) list" where
  "scenario_a_args =
     [(ustr ''reason'', JStr (ustr ''emergency'')), (ustr ''issue'', JStr (ustr ''burst pipe'')),
      (ustr ''serviceAddress'', JStr (ustr ''12 Elm St''))]"

definition evt_type_logged :: "jsval \<Rightarrow> json" where
  "evt_type_logged evt =
     (case or_else (evt_type evt) (Val (JStr (ustr ''unknown''))) of
        Val j \<Rightarrow> json_out j
      | Undefined \<Rightarrow> JNull)"

definition transport_line_of :: "ustring \<Rightarrow> jsval \<Rightarrow> json" where
  "transport_line_of t evt =
     JObj [(ustr ''ts'', JStr t), (ustr ''type'', JStr (ustr ''transport_event'')),
           (ustr ''evtType'', evt_type_logged evt)]"

definition error_line_of :: "ustring \<Rightarrow> ustring \<Rightarrow> json" where
  "error_line_of t err_text =
     JObj [(ustr ''ts'', JStr t), (ustr ''type'', JStr (ustr ''session_error'')),
           (ustr ''err'', JStr err_text)]"

definition faulty_world :: world where
  "faulty_world = demo_world\<lparr>fs_ok := False\<rparr>"

definition media_event :: jsval where
  "media_event = Val (JObj [(ustr ''event'', JStr (ustr ''media'')), (ustr ''type'', JStr (ustr ''media''))])"

section \<open>Strings and objects: basic facts\<close>

lemma of_char_nat_less: "(of_char c :: nat) < 256"
proof -
  have "(of_char c :: nat) mod 256 = of_char c" by (rule of_char_mod_256)
  moreover have "(of_char c :: nat) mod 256 < 256" by simp
  ultimately show ?thesis by simp
qed

lemma unat_of_char: "unat (of_char c :: 16 word) = (of_char c :: nat)"
proof -
  have "(of_char c :: 16 word) = of_nat (of_char c)" by (simp only: of_nat_of_char)
  then have "unat (of_char c :: 16 word) = (of_char c :: nat) mod 2 ^ 16"
    by (simp only: unat_of_nat) simp
  moreover have "n mod 2 ^ 16 = n" if "n < 256" for n :: nat
    using that by simp
  ultimately show ?thesis using of_char_nat_less [of c] by (simp only:)
qed

lemma of_char_16_inj: "(of_char c :: 16 word) = of_char d \<longleftrightarrow> c = d"
proof
  assume "(of_char c :: 16 word) = of_char d"
  then have "unat (of_char c :: 16 word) = unat (of_char d :: 16 word)" by simp
  then have "(of_char c :: nat) = of_char d" by (simp only: unat_of_char)
  then show "c = d" by simp
qed simp

lemma ustr_inj [simp]: "ustr a = ustr b \<longleftrightarrow> a = b"
  unfolding ustr_def by (rule inj_map_eq_map) (simp add: inj_on_def of_char_16_inj)

lemma ustr_Nil [simp]: "ustr [] = []" "ustr s = [] \<longleftrightarrow> s = []" "[] = ustr s \<longleftrightarrow> s = []"
  by (auto simp: ustr_def)

lemma length_ustr [simp]: "length (ustr s) = length s"
  by (simp add: ustr_def)

lemma spread_keys:
  "fst ` set (foldl (\<lambda>acc (k, v). AList.update k v acc) obj src) = fst ` set obj \<union> fst ` set src"
proof (induction src arbitrary: obj)
  case Nil
  then show ?case by simp
next
  case (Cons p src)
  obtain k v where p: "p = (k, v)" by (cases p)
  have "fst ` set (foldl (\<lambda>acc (k, v). AList.update k v acc) (AList.update k v obj) src)
        = fst ` set (AList.update k v obj) \<union> fst ` set src"
    by (rule Cons.IH)
  also have "\<dots> = ({k} \<union> fst ` set obj) \<union> fst ` set src"
    by (simp only: AList.dom_update)
  finally show ?case using p by auto
qed

lemma spread_distinct:
  "distinct (map fst obj) \<Longrightarrow> distinct (map fst (foldl (\<lambda>acc (k, v). AList.update k v acc) obj src))"
  by (induction src arbitrary: obj) (auto simp: AList.distinct_update)

lemma spread_other:
  "k \<notin> fst ` set src \<Longrightarrow>
   map_of (foldl (\<lambda>acc (k, v). AList.update k v acc) obj src) k = map_of obj k"
  by (induction src arbitrary: obj) (auto simp: AList.update_conv')

lemma spread_hit:
  "distinct (map fst src) \<Longrightarrow> map_of src k = Some v \<Longrightarrow>
   map_of (foldl (\<lambda>acc (k, v). AList.update k v acc) obj src) k = Some v"
proof (induction src arbitrary: obj)
  case Nil
  then show ?case by simp
next
  case (Cons p src)
  obtain k' v' where p: "p = (k', v')" by (cases p)
  show ?case
  proof (cases "k' = k")
    case True
    with Cons.prems p have "v' = v" and "k \<notin> fst ` set src" by auto
    then show ?thesis using p True
      by (simp add: spread_other AList.update_conv')
  next
    case False
    with Cons.prems p have "distinct (map fst src)" and "map_of src k = Some v" by auto
    then show ?thesis using p by (simp add: Cons.IH)
  qed
qed

lemma stringify_props_keys: "fst ` set (stringify_props obj) \<subseteq> fst ` set obj"
  by (induction obj rule: stringify_props.induct) auto

lemma stringify_props_lookup:
  "distinct (map fst obj) \<Longrightarrow>
   map_of (stringify_props obj) k =
     (case map_of obj k of Some (Val j) \<Rightarrow> Some (json_out j) | _ \<Rightarrow> None)"
proof (induction obj rule: stringify_props.induct)
  case 1
  then show ?case by simp
next
  case (2 k' ps)
  then have IH: "map_of (stringify_props ps) k =
     (case map_of ps k of Some (Val j) \<Rightarrow> Some (json_out j) | _ \<Rightarrow> None)" by simp
  from 2 have "k' \<notin> fst ` set ps" by simp
  then have "k' \<notin> fst ` set (stringify_props ps)" using stringify_props_keys by blast
  then have "map_of (stringify_props ps) k' = None" by (simp add: map_of_eq_None_iff)
  moreover have "map_of ps k' = None" using \<open>k' \<notin> fst ` set ps\<close> by (simp add: map_of_eq_None_iff)
  ultimately show ?case using IH by simp
next
  case (3 k' j ps)
  then show ?case by simp
qed

lemma ensureDataDir_ok: "fs_ok w \<Longrightarrow> ensureDataDir w = (Inr (), ensured w)"
  by (cases w)
     (auto simp: ensureDataDir_def bind_io_def existsSync_def mkdirSync_def
        writeFileSync_empty_def ensured_def)

lemma ensureDataDir_fault:
  "\<not> fs_ok w \<Longrightarrow> ensureDataDir w = (Inl FsError, w) \<or> ensureDataDir w = (Inr (), w)"
  by (auto simp: ensureDataDir_def bind_io_def existsSync_def mkdirSync_def
        writeFileSync_empty_def)

lemma ensured_simps [simp]:
  "dir_exists (ensured w) = True"
  "fs_ok (ensured w) = fs_ok w"
  "now (ensured w) = now w"
  "uuids (ensured w) = uuids w"
  "uuid_ix (ensured w) = uuid_ix w"
  "gateway (ensured w) = gateway w"
  "backend_up (ensured w) = backend_up w"
  "trace (ensured w) = trace w"
  "file_lines (ensured w) p = file_lines w p"
  by (auto simp: ensured_def file_lines_def)

lemma appended_simps [simp]:
  "dir_exists (appended p l w) = dir_exists w"
  "fs_ok (appended p l w) = fs_ok w"
  "now (appended p l w) = now w"
  "uuids (appended p l w) = uuids w"
  "uuid_ix (appended p l w) = uuid_ix w"
  "gateway (appended p l w) = gateway w"
  "backend_up (appended p l w) = backend_up w"
  "trace (appended p l w) = trace w @ [Appended p l]"
  "file_lines (appended p l w) q = (if q = p then file_lines w p @ [l] else file_lines w q)"
  by (auto simp: appended_def file_lines_def)

lemma file_lines_frame [simp]:
  "file_lines (w\<lparr>trace := tr\<rparr>) p = file_lines w p"
  "file_lines (w\<lparr>uuid_ix := n\<rparr>) p = file_lines w p"
  "file_lines (w\<lparr>now := t\<rparr>) p = file_lines w p"
  by (simp_all add: file_lines_def)

lemma appendEvent_ok:
  "fs_ok w \<Longrightarrow> appendEvent ev w = (Inr (), appended EVENTS_FILE (event_line (now w) ev) (ensured w))"
  by (simp add: appendEvent_def bind_io_def ensureDataDir_ok appendFileSync_def appended_def
        event_line_def)

lemma appendEvent_fault: "\<not> fs_ok w \<Longrightarrow> appendEvent ev w = (Inl FsError, w)"
  using ensureDataDir_fault [of w]
  by (auto simp: appendEvent_def bind_io_def appendFileSync_def)

lemma appendLead_ok:
  "fs_ok w \<Longrightarrow> appendLead lead w = (Inr (), appended LEADS_FILE (JSON_stringify lead) (ensured w))"
  by (simp add: appendLead_def bind_io_def ensureDataDir_ok appendFileSync_def appended_def)

lemma appendLead_fault: "\<not> fs_ok w \<Longrightarrow> appendLead lead w = (Inl FsError, w)"
  using ensureDataDir_fault [of w]
  by (auto simp: appendLead_def bind_io_def appendFileSync_def)

lemma sms_attempt_line:
  "event_line t (sms_attempt_event to message) =
     JObj [(ustr ''ts'', JStr t), (ustr ''type'', JStr (ustr ''sms_attempt'')),
           (ustr ''to'', JStr to), (ustr ''messagePreview'', JStr (take 80 message))]"
  by (simp add: event_line_def sms_attempt_event_def obj_lit_def JSON_stringify_def slice0_def)

lemma raw_prop_cases:
  obtains "raw_prop ps k = Undefined" | j where "raw_prop ps k = Val j"
  by (cases "raw_prop ps k") auto

lemma sendSms_parse:
  assumes "raw_prop ps (ustr ''to'') = Val (JStr dest)"
    and "raw_prop ps (ustr ''message'') = Val (JStr msg)" and "length msg \<le> 480"
  shows "z_object sendSms_parameters (JObj ps) =
           Inr [(ustr ''to'', Val (JStr dest)), (ustr ''message'', Val (JStr msg))]"
  using assms by (simp add: z_object_def sendSms_parameters_def)

lemma sendSms_parse_shape:
  assumes "raw_prop ps (ustr ''to'') = Val (JStr dest)"
  shows "z_object sendSms_parameters (JObj ps) = Inl ZodError \<or>
         (\<exists>msg. z_object sendSms_parameters (JObj ps) =
           Inr [(ustr ''to'', Val (JStr dest)), (ustr ''message'', Val (JStr msg))])"
proof (cases "raw_prop ps (ustr ''message'')")
  case Undefined
  then show ?thesis using assms by (simp add: z_object_def sendSms_parameters_def)
next
  case (Val j)
  then show ?thesis using assms
    by (cases j) (auto simp: z_object_def sendSms_parameters_def)
qed

lemma sendSms_execute_reject:
  assumes "\<not> startsWith dest (ustr ''+'') \<or> length dest < 11"
  shows "sendSms_execute cfg [(ustr ''to'', Val (JStr dest)), (ustr ''message'', Val (JStr msg))] w =
           (Inl (JsError (ustr ''Phone must be E.164 format like +15551234567'')), w)"
  using assms by (auto simp: sendSms_execute_def get_prop_def assertE164_def)

lemma sendSms_reject:
  assumes "raw_prop ps (ustr ''to'') = Val (JStr dest)"
    and "\<not> startsWith dest (ustr ''+'') \<or> length dest < 11"
  shows "sendSmsTool cfg (JObj ps) w = (Inl ZodError, w) \<or>
         sendSmsTool cfg (JObj ps) w =
           (Inl (JsError (ustr ''Phone must be E.164 format like +15551234567'')), w)"
  using sendSms_parse_shape [OF assms(1)] sendSms_execute_reject [OF assms(2)]
  by (auto simp: sendSmsTool_def tool_def)

lemma sendSms_accept:
  assumes "raw_prop ps (ustr ''to'') = Val (JStr dest)"
    and "raw_prop ps (ustr ''message'') = Val (JStr msg)" and "length msg \<le> 480"
    and "startsWith dest (ustr ''+'')" and "11 \<le> length dest" and "fs_ok w"
  shows "sendSmsTool cfg (JObj ps) w =
     (let w1 = appended EVENTS_FILE (sms_attempt_line_of (now w) dest msg) (ensured w);
          w2 = w1\<lparr>trace := trace w1 @ [GatewayCall (sms_of cfg dest msg)]\<rparr>
      in if gateway_unconfigured cfg
         then (Inr (backgroundResult (ustr ''Twilio not configured; SMS skipped.'')), w1)
         else (case gateway w (sms_of cfg dest msg) of
                 None \<Rightarrow> (Inl GatewayError, w2)
               | Some sid \<Rightarrow> (Inr (backgroundResult (ustr ''SMS sent: sid='' @ sid)), w2)))"
  using assms(4-6)
  by (simp add: sendSmsTool_def tool_def sendSms_parse [OF assms(1-3)] sendSms_execute_def
        get_prop_def assertE164_def bind_io_def appendEvent_ok sms_attempt_line
        sms_attempt_line_of_def return_io_def messages_create_def sms_of_def Let_def
      split: option.splits)



lemma z_fields_keys:
  "z_fields shape ps = Inr out \<Longrightarrow> fst ` set out \<subseteq> fst ` set shape"
proof (induction shape arbitrary: out)
  case Nil
  then show ?case by simp
next
  case (Cons p shape)
  obtain k f where p: "p = (k, f)" by (cases p)
  from Cons.prems p obtain v out' where
    v: "z_field f (raw_prop ps k) = Inr v" and out': "z_fields shape ps = Inr out'"
    and out: "out = (case v of Undefined \<Rightarrow> out' | Val j \<Rightarrow> (k, v) # out')"
    by (auto split: sum.splits)
  from Cons.IH [OF out'] have "fst ` set out' \<subseteq> fst ` set shape" .
  then show ?case using out p by (cases v) auto
qed

lemma z_fields_distinct:
  "z_fields shape ps = Inr out \<Longrightarrow> distinct (map fst shape) \<Longrightarrow> distinct (map fst out)"
proof (induction shape arbitrary: out)
  case Nil
  then show ?case by simp
next
  case (Cons p shape)
  obtain k f where p: "p = (k, f)" by (cases p)
  from Cons.prems(1) p obtain v out' where
    v: "z_field f (raw_prop ps k) = Inr v" and out': "z_fields shape ps = Inr out'"
    and out: "out = (case v of Undefined \<Rightarrow> out' | Val j \<Rightarrow> (k, v) # out')"
    by (auto split: sum.splits)
  from Cons.prems(2) p have d: "distinct (map fst shape)" and k: "k \<notin> fst ` set shape" by auto
  from Cons.IH [OF out' d] have "distinct (map fst out')" .
  moreover from z_fields_keys [OF out'] k have "k \<notin> fst ` set out'" by blast
  ultimately show ?case using out by (cases v) auto
qed

lemma z_fields_lookup:
  "z_fields shape ps = Inr out \<Longrightarrow> distinct (map fst shape) \<Longrightarrow> (k, f) \<in> set shape \<Longrightarrow>
   \<exists>v. z_field f (raw_prop ps k) = Inr v \<and>
       map_of out k = (case v of Undefined \<Rightarrow> None | Val j \<Rightarrow> Some v)"
proof (induction shape arbitrary: out)
  case Nil
  then show ?case by simp
next
  case (Cons p shape)
  obtain k' f' where p: "p = (k', f')" by (cases p)
  from Cons.prems(1) p obtain v' out' where
    v': "z_field f' (raw_prop ps k') = Inr v'" and out': "z_fields shape ps = Inr out'"
    and out: "out = (case v' of Undefined \<Rightarrow> out' | Val j \<Rightarrow> (k', v') # out')"
    by (auto split: sum.splits)
  from Cons.prems(2) p have d: "distinct (map fst shape)" and k': "k' \<notin> fst ` set shape" by auto
  from z_fields_keys [OF out'] k' have nk: "map_of out' k' = None"
    by (auto simp: map_of_eq_None_iff)
  show ?case
  proof (cases "(k, f) = (k', f')")
    case True
    then show ?thesis using v' out nk by (cases v') auto
  next
    case False
    with Cons.prems(3) p have mem: "(k, f) \<in> set shape" by auto
    then have "k \<noteq> k'" using k' by force
    from Cons.IH [OF out' d mem] obtain v where
      "z_field f (raw_prop ps k) = Inr v"
      "map_of out' k = (case v of Undefined \<Rightarrow> None | Val j \<Rightarrow> Some v)" by blast
    then show ?thesis using out \<open>k \<noteq> k'\<close> by (cases v') auto
  qed
qed

lemma spread_lookup:
  assumes "distinct (map fst src)"
  shows "map_of (foldl (\<lambda>acc (k, v). AList.update k v acc) obj src) k =
           (case map_of src k of Some v \<Rightarrow> Some v | None \<Rightarrow> map_of obj k)"
proof (cases "map_of src k")
  case None
  then have "k \<notin> fst ` set src" by (simp add: map_of_eq_None_iff)
  then show ?thesis using None by (simp add: spread_other)
next
  case (Some v)
  then show ?thesis using assms by (simp add: spread_hit)
qed

lemma make_lead_distinct: "distinct (map fst (make_lead cfg i t input))"
  by (simp add: make_lead_def obj_lit_def AList.distinct_update spread_distinct)

lemma make_lead_lookup:
  assumes "distinct (map fst input)"
  shows "map_of (make_lead cfg i t input) k =
     (if k = ustr ''source'' then Some (Val (JStr (ustr ''twilio_call'')))
      else case map_of input k of
             Some v \<Rightarrow> Some v
           | None \<Rightarrow>
               (if k = ustr ''id'' then Some (Val (JStr i))
                else if k = ustr ''createdAt'' then Some (Val (JStr t))
                else if k = ustr ''businessName'' then Some (Val (JStr (BUSINESS_NAME cfg)))
                else None))"
  by (simp add: make_lead_def obj_lit_def AList.update_conv' spread_lookup [OF assms]
      split: option.splits)

lemma createLead_run:
  assumes "z_object createLead_parameters (JObj ps) = Inr input" and "fs_ok w"
  shows "createLeadTool cfg (JObj ps) w =
     (Inr (backgroundResult (ustr ''Lead stored with id '' @ uuids w (uuid_ix w))),
      appended LEADS_FILE (JSON_stringify (make_lead cfg (uuids w (uuid_ix w)) (now w) input))
        (ensured (w\<lparr>uuid_ix := Suc (uuid_ix w)\<rparr>)))"
  using assms
  by (simp add: createLeadTool_def tool_def createLead_execute_def randomUUID_def bind_io_def
        appendLead_ok return_io_def)

lemma createLead_fault:
  assumes "z_object createLead_parameters (JObj ps) = Inr input" and "\<not> fs_ok w"
  shows "createLeadTool cfg (JObj ps) w = (Inl FsError, w\<lparr>uuid_ix := Suc (uuid_ix w)\<rparr>)"
  using assms
  by (simp add: createLeadTool_def tool_def createLead_execute_def randomUUID_def bind_io_def
        appendLead_fault return_io_def)

lemma createLead_shape_distinct: "distinct (map fst createLead_parameters)"
  by (simp add: createLead_parameters_def)

lemma createLead_input_props:
  assumes "z_object createLead_parameters (JObj ps) = Inr input"
  shows "distinct (map fst input)" and "fst ` set input \<subseteq> fst ` set createLead_parameters"
  using assms z_fields_distinct [OF _ createLead_shape_distinct] z_fields_keys
  by (auto simp: z_object_def)

lemma stored_lead_lookup:
  assumes "z_object createLead_parameters (JObj ps) = Inr input"
  shows "map_of (stringify_props (make_lead cfg i t input)) k =
     (if k = ustr ''source'' then Some (JStr (ustr ''twilio_call''))
      else case map_of input k of
             Some (Val j) \<Rightarrow> Some (json_out j)
           | Some Undefined \<Rightarrow> None
           | None \<Rightarrow>
               (if k = ustr ''id'' then Some (JStr i)
                else if k = ustr ''createdAt'' then Some (JStr t)
                else if k = ustr ''businessName'' then Some (JStr (BUSINESS_NAME cfg))
                else None))"
  by (simp add: stringify_props_lookup [OF make_lead_distinct]
        make_lead_lookup [OF createLead_input_props(1) [OF assms]]
      split: option.splits jsval.splits)

lemma optional_string_field:
  "z_field (Optional ZString) rv = Inr v \<Longrightarrow>
   (rv = Undefined \<and> v = Undefined) \<or> (\<exists>s. rv = Val (JStr s) \<and> v = Val (JStr s))"
  by (cases rv; cases "case rv of Val j \<Rightarrow> j | _ \<Rightarrow> JNull") (auto split: if_splits)

lemma urgency_field:
  "z_field (Default (ZEnum vs) (JStr d)) rv = Inr v \<Longrightarrow>
   (rv = Undefined \<and> v = Val (JStr d)) \<or> (\<exists>s. rv = Val (JStr s) \<and> s \<in> set vs \<and> v = Val (JStr s))"
  by (cases rv; cases "case rv of Val j \<Rightarrow> j | _ \<Rightarrow> JNull") (auto split: if_splits)

lemma env_missing_cases:
  "env_missing env name \<Longrightarrow> env name = None \<or> env name = Some []"
  "\<not> env_missing env name \<Longrightarrow> \<exists>v. env name = Some v \<and> v \<noteq> []"
  by (auto simp: env_missing_def)

lemma mustEnv_missing:
  "env_missing env name \<Longrightarrow> mustEnv env name = Inl (1, ustr ''Missing env var: '' @ name)"
  by (auto simp: env_missing_def mustEnv_def)

lemma mustEnv_present:
  "\<not> env_missing env name \<Longrightarrow> mustEnv env name = Inr (the (env name)) \<and> the (env name) \<noteq> []"
  by (auto simp: env_missing_def mustEnv_def)


lemma env_or_empty_iff: "env_or env name [] = [] \<longleftrightarrow> env_missing env name"
  by (auto simp: env_missing_def env_or_def split: option.splits)

lemma load_config_exit_oncall:
  "env_missing env (ustr ''ONCALL_PHONE'') \<Longrightarrow>
   load_config twilio env = ProcessExit 1 (ustr ''Missing env var: ONCALL_PHONE'')"
  by (simp add: load_config_def mustEnv_missing Let_def ustr_def)

lemma load_config_exit_key:
  "\<not> env_missing env (ustr ''ONCALL_PHONE'') \<Longrightarrow> env_missing env (ustr ''OPENAI_API_KEY'') \<Longrightarrow>
   load_config twilio env = ProcessExit 1 (ustr ''Missing env var: OPENAI_API_KEY'')"
  by (simp add: load_config_def mustEnv_missing mustEnv_present Let_def ustr_def)


lemma load_config_never_exits:
  assumes "\<not> env_missing env (ustr ''ONCALL_PHONE'')" and "\<not> env_missing env (ustr ''OPENAI_API_KEY'')"
  shows "load_config twilio env \<noteq> ProcessExit code msg"
  using mustEnv_present [OF assms(1)] mustEnv_present [OF assms(2)]
  by (auto simp: load_config_def Let_def split: sum.splits)


lemma load_config_present:
  assumes "\<not> env_missing env (ustr ''ONCALL_PHONE'')" and "\<not> env_missing env (ustr ''OPENAI_API_KEY'')"
  shows "load_config twilio env =
     (let sid = env_or env (ustr ''TWILIO_ACCOUNT_SID'') [];
          token = env_or env (ustr ''TWILIO_AUTH_TOKEN'') [];
          cfg = \<lparr>PORT = (case env (ustr ''PORT'') of
                            None \<Rightarrow> Port 5050
                          | Some v \<Rightarrow> if v = [] then Port 5050 else PortOfString v),
                 PUBLIC_HOST = env (ustr ''PUBLIC_HOST''),
                 BUSINESS_NAME = env_or env (ustr ''BUSINESS_NAME'') (ustr ''NY Plumbing (Pilot)''),
                 ONCALL_PHONE = the (env (ustr ''ONCALL_PHONE'')),
                 OPENAI_API_KEY = the (env (ustr ''OPENAI_API_KEY'')),
                 TWILIO_ACCOUNT_SID = sid, TWILIO_AUTH_TOKEN = token,
                 TWILIO_FROM_NUMBER = env_or env (ustr ''TWILIO_FROM_NUMBER'') [],
                 twilioClient = None\<rparr>
      in if sid \<noteq> [] \<and> token \<noteq> []
         then (case twilio sid token of
                 Inl e \<Rightarrow> Uncaught e
               | Inr c \<Rightarrow> Configured (cfg\<lparr>twilioClient := Some c\<rparr>))
         else Configured cfg)"
  using mustEnv_present [OF assms(1)] mustEnv_present [OF assms(2)]
  by (simp add: load_config_def Let_def)

lemma load_config_configured_required:
  assumes "load_config twilio env = Configured cfg"
  shows "\<not> env_missing env (ustr ''ONCALL_PHONE'')" and "\<not> env_missing env (ustr ''OPENAI_API_KEY'')"
proof -
  show 1: "\<not> env_missing env (ustr ''ONCALL_PHONE'')"
    using assms load_config_exit_oncall [of env twilio] by auto
  show "\<not> env_missing env (ustr ''OPENAI_API_KEY'')"
    using assms 1 load_config_exit_key [of env twilio] by auto
qed

lemma load_config_gateway_unconfigured:
  assumes "load_config twilio env = Configured cfg"
    and "env_missing env (ustr ''TWILIO_ACCOUNT_SID'') \<or> env_missing env (ustr ''TWILIO_AUTH_TOKEN'') \<or>
         env_missing env (ustr ''TWILIO_FROM_NUMBER'')"
  shows "gateway_unconfigured cfg"
proof -
  note req = load_config_configured_required [OF assms(1)]
  show ?thesis
  proof (cases "env_or env (ustr ''TWILIO_ACCOUNT_SID'') [] \<noteq> [] \<and>
                env_or env (ustr ''TWILIO_AUTH_TOKEN'') [] \<noteq> []")
    case True
    then have "env_missing env (ustr ''TWILIO_FROM_NUMBER'')"
      using assms(2) by (auto simp: env_or_empty_iff)
    then have "env_or env (ustr ''TWILIO_FROM_NUMBER'') [] = []" by (simp add: env_or_empty_iff)
    then show ?thesis
      using assms(1) True unfolding load_config_present [OF req]
      by (auto simp: Let_def gateway_unconfigured_def split: sum.splits)
  next
    case False
    then show ?thesis
      using assms(1) unfolding load_config_present [OF req]
      by (auto simp: Let_def gateway_unconfigured_def)
  qed
qed




lemma demo_env_config: "load_config failing_twilio demo_env = Configured bare_config"
  by (simp add: load_config_def mustEnv_def env_or_def demo_env_def bare_config_def Let_def)

lemma parsed_urgency:
  assumes "z_object createLead_parameters (JObj ps) = Inr input"
  shows "(raw_prop ps (ustr ''urgency'') = Undefined \<and>
          map_of input (ustr ''urgency'') = Some (Val (JStr (ustr ''normal''))))
       \<or> (\<exists>s. raw_prop ps (ustr ''urgency'') = Val (JStr s) \<and>
               s \<in> {ustr ''low'', ustr ''normal'', ustr ''emergency''} \<and>
               map_of input (ustr ''urgency'') = Some (Val (JStr s)))"
proof -
  have mem: "(ustr ''urgency'',
        Default (ZEnum [ustr ''low'', ustr ''normal'', ustr ''emergency'']) (JStr (ustr ''normal'')))
      \<in> set createLead_parameters"
    by (simp add: createLead_parameters_def)
  from assms have "z_fields createLead_parameters ps = Inr input" by (simp add: z_object_def)
  from z_fields_lookup [OF this createLead_shape_distinct mem] obtain v where
    v: "z_field (Default (ZEnum [ustr ''low'', ustr ''normal'', ustr ''emergency'']) (JStr (ustr ''normal'')))
          (raw_prop ps (ustr ''urgency'')) = Inr v"
    and look: "map_of input (ustr ''urgency'') = (case v of Undefined \<Rightarrow> None | Val j \<Rightarrow> Some v)"
    by blast
  from urgency_field [OF v] show ?thesis using look by auto
qed

lemma parsed_free_text:
  assumes "z_object createLead_parameters (JObj ps) = Inr input" and "k \<in> set free_text_fields"
  shows "(raw_prop ps k = Undefined \<and> map_of input k = None)
       \<or> (\<exists>s. raw_prop ps k = Val (JStr s) \<and> map_of input k = Some (Val (JStr s)))"
proof -
  from assms(2) have mem: "(k, Optional ZString) \<in> set createLead_parameters"
    by (auto simp: createLead_parameters_def free_text_fields_def)
  from assms(1) have "z_fields createLead_parameters ps = Inr input" by (simp add: z_object_def)
  from z_fields_lookup [OF this createLead_shape_distinct mem] obtain v where
    v: "z_field (Optional ZString) (raw_prop ps k) = Inr v"
    and look: "map_of input k = (case v of Undefined \<Rightarrow> None | Val j \<Rightarrow> Some v)"
    by blast
  from optional_string_field [OF v] show ?thesis using look by auto
qed

lemma z_fields_values:
  "z_fields shape ps = Inr out \<Longrightarrow> (k, v) \<in> set out \<Longrightarrow>
   \<exists>f j. (k, f) \<in> set shape \<and> z_field f (raw_prop ps k) = Inr (Val j) \<and> v = Val j"
proof (induction shape arbitrary: out)
  case Nil
  then show ?case by simp
next
  case (Cons p shape)
  obtain k' f' where p: "p = (k', f')" by (cases p)
  from Cons.prems(1) p obtain v' out' where
    v': "z_field f' (raw_prop ps k') = Inr v'" and out': "z_fields shape ps = Inr out'"
    and out: "out = (case v' of Undefined \<Rightarrow> out' | Val j \<Rightarrow> (k', v') # out')"
    by (auto split: sum.splits)
  show ?case
  proof (cases "(k, v) \<in> set out'")
    case True
    from Cons.IH [OF out' True] show ?thesis using p by auto
  next
    case False
    with Cons.prems(2) out obtain j where "v' = Val j" "k = k'" "v = v'"
      by (cases v') auto
    then show ?thesis using v' p by auto
  qed
qed

lemma createLead_input_strings:
  assumes "z_object createLead_parameters (JObj ps) = Inr input" and "map_of input k = Some v"
  shows "\<exists>s. v = Val (JStr s)"
proof -
  from assms(1) have zf: "z_fields createLead_parameters ps = Inr input" by (simp add: z_object_def)
  from assms(2) have "(k, v) \<in> set input" by (rule map_of_SomeD)
  from z_fields_values [OF zf this] obtain f j where
    f: "(k, f) \<in> set createLead_parameters" and zv: "z_field f (raw_prop ps k) = Inr (Val j)"
    and v: "v = Val j" by blast
  from f have "f = Optional ZString \<or>
      f = Default (ZEnum [ustr ''low'', ustr ''normal'', ustr ''emergency'']) (JStr (ustr ''normal''))"
    by (auto simp: createLead_parameters_def)
  then show ?thesis
    using zv v optional_string_field [of "raw_prop ps k" "Val j"]
      urgency_field [of "[ustr ''low'', ustr ''normal'', ustr ''emergency'']" "ustr ''normal''"
                        "raw_prop ps k" "Val j"]
    by auto
qed

lemma stored_lead_strings:
  assumes "z_object createLead_parameters (JObj ps) = Inr input"
    and "map_of (stringify_props (make_lead cfg i t input)) k = Some j"
  shows "\<exists>s. j = JStr s"
proof (cases "map_of input k")
  case None
  then show ?thesis using assms(2)
    by (auto simp: stored_lead_lookup [OF assms(1)] split: if_splits)
next
  case (Some v)
  from createLead_input_strings [OF assms(1) Some] obtain s where "v = Val (JStr s)" by blast
  then show ?thesis using assms(2) Some
    by (auto simp: stored_lead_lookup [OF assms(1)] split: if_splits)
qed

lemma demo_lead_args_parse:
  "z_object createLead_parameters (JObj demo_lead_args) =
     Inr [(ustr ''callerPhone'', Val (JStr (ustr ''+15551234567''))),
          (ustr ''issue'', Val (JStr (ustr ''burst pipe''))),
          (ustr ''urgency'', Val (JStr (ustr ''normal'')))]"
  by (simp add: z_object_def createLead_parameters_def demo_lead_args_def raw_prop_def)

lemma forged_lead_args_parse:
  "z_object createLead_parameters (JObj forged_lead_args) =
     Inr [(ustr ''issue'', Val (JStr (ustr ''leak''))),
          (ustr ''urgency'', Val (JStr (ustr ''normal'')))]"
  by (simp add: z_object_def createLead_parameters_def forged_lead_args_def raw_prop_def)

lemma empty_lead_args_parse:
  "z_object createLead_parameters (JObj []) = Inr [(ustr ''urgency'', Val (JStr (ustr ''normal'')))]"
  by (simp add: z_object_def createLead_parameters_def raw_prop_def)

lemma demo_world_fs_ok: "fs_ok demo_world"
  by (simp add: demo_world_def)

lemma get_prop_parsed:
  assumes "z_fields shape ps = Inr out" and "distinct (map fst shape)" and "(k, f) \<in> set shape"
  shows "z_field f (raw_prop ps k) = Inr (get_prop out k)"
proof -
  from z_fields_lookup [OF assms] obtain v where
    "z_field f (raw_prop ps k) = Inr v"
    "map_of out k = (case v of Undefined \<Rightarrow> None | Val j \<Rightarrow> Some v)" by blast
  then show ?thesis by (cases v) (simp_all add: get_prop_def)
qed

lemma default_string_field:
  "z_field (Default ZString (JStr d)) rv = Inr v \<Longrightarrow>
   v = Val (JStr (case rv of Val (JStr s) \<Rightarrow> s | _ \<Rightarrow> d))"
  by (cases rv; cases "case rv of Val j \<Rightarrow> j | _ \<Rightarrow> JNull") (auto split: if_splits)

lemma optional_string_same:
  "z_field (Optional ZString) rv = Inr v \<Longrightarrow> v = rv \<and> (rv = Undefined \<or> (\<exists>s. rv = Val (JStr s)))"
  using optional_string_field [of rv v] by auto

lemma escalate_input:
  assumes "z_object escalate_parameters (JObj ps) = Inr input"
  shows "get_prop input (ustr ''reason'') = Val (JStr (escalation_reason ps))"
    and "k \<in> {ustr ''callerPhone'', ustr ''serviceAddress'', ustr ''issue''} \<Longrightarrow>
         get_prop input k = raw_prop ps k \<and>
         (raw_prop ps k = Undefined \<or> (\<exists>s. raw_prop ps k = Val (JStr s)))"
proof -
  from assms have zf: "z_fields escalate_parameters ps = Inr input" by (simp add: z_object_def)
  have d: "distinct (map fst escalate_parameters)" by (simp add: escalate_parameters_def)
  have "(ustr ''reason'', Default ZString (JStr (ustr ''emergency''))) \<in> set escalate_parameters"
    by (simp add: escalate_parameters_def)
  from get_prop_parsed [OF zf d this] show "get_prop input (ustr ''reason'') = Val (JStr (escalation_reason ps))"
    using default_string_field by (fastforce simp: escalation_reason_def)
  assume "k \<in> {ustr ''callerPhone'', ustr ''serviceAddress'', ustr ''issue''}"
  then have "(k, Optional ZString) \<in> set escalate_parameters"
    by (auto simp: escalate_parameters_def)
  from get_prop_parsed [OF zf d this] optional_string_same
  show "get_prop input k = raw_prop ps k \<and>
         (raw_prop ps k = Undefined \<or> (\<exists>s. raw_prop ps k = Val (JStr s)))"
    by fastforce
qed

lemma escalation_line:
  assumes "cp = Undefined \<or> (\<exists>s. cp = Val (JStr s))"
    and "sa = Undefined \<or> (\<exists>s. sa = Val (JStr s))"
    and "iss = Undefined \<or> (\<exists>s. iss = Val (JStr s))"
  shows "event_line t (escalation_event (Val (JStr r)) cp sa iss) =
     JObj ([(ustr ''ts'', JStr t), (ustr ''type'', JStr (ustr ''escalation'')),
            (ustr ''reason'', JStr r)] @
           opt_field (ustr ''callerPhone'') cp @ opt_field (ustr ''serviceAddress'') sa @
           opt_field (ustr ''issue'') iss)"
  using assms
  by (auto simp: event_line_def escalation_event_def obj_lit_def JSON_stringify_def opt_field_def)

lemma escalation_body_text:
  assumes "iss = Undefined \<or> (\<exists>s. iss = Val (JStr s))"
    and "sa = Undefined \<or> (\<exists>s. sa = Val (JStr s))"
    and "cp = Undefined \<or> (\<exists>s. cp = Val (JStr s))"
  shows "escalation_body cfg (Val (JStr r)) iss sa cp =
     [0xF0, 0x178, 0x161, 0xA8] @ ustr '' EMERGENCY LEAD ('' @ BUSINESS_NAME cfg @ ustr '')'' @ [0x0A] @
     ustr ''Reason: '' @ r @ [0x0A] @
     alert_line (ustr ''Issue: '') iss @ alert_line (ustr ''Address: '') sa @
     alert_line (ustr ''Caller: '') cp"
  using assms
  by (auto simp: escalation_body_def opt_line_def alert_line_def alert_mark_def)

lemma escalate_run:
  assumes "z_object escalate_parameters (JObj ps) = Inr input" and "fs_ok w"
  shows "escalateTool cfg (JObj ps) w =
     (let w1 = appended EVENTS_FILE (escalation_line_of (now w) ps) (ensured w);
          w2 = w1\<lparr>trace := trace w1 @ [GatewayCall (escalation_sms cfg ps)]\<rparr>
      in if gateway_unconfigured cfg
         then (Inr (backgroundResult (ustr ''Twilio not configured; escalation SMS skipped.'')), w1)
         else (case gateway w (escalation_sms cfg ps) of
                 None \<Rightarrow> (Inl GatewayError, w2)
               | Some sid \<Rightarrow> (Inr (backgroundResult (ustr ''Escalation SMS sent: sid='' @ sid)), w2)))"
proof -
  note r = escalate_input(1) [OF assms(1)]
  have o: "get_prop input (ustr ''callerPhone'') = raw_prop ps (ustr ''callerPhone'')"
    "get_prop input (ustr ''serviceAddress'') = raw_prop ps (ustr ''serviceAddress'')"
    "get_prop input (ustr ''issue'') = raw_prop ps (ustr ''issue'')"
    using escalate_input(2) [OF assms(1)] by simp_all
  have line: "event_line (now w)
        (escalation_event (Val (JStr (escalation_reason ps))) (raw_prop ps (ustr ''callerPhone''))
           (raw_prop ps (ustr ''serviceAddress'')) (raw_prop ps (ustr ''issue''))) =
      escalation_line_of (now w) ps"
    unfolding escalation_line_of_def
    using escalate_input(2) [OF assms(1)] by (intro escalation_line) simp_all
  have body: "escalation_body cfg (Val (JStr (escalation_reason ps))) (raw_prop ps (ustr ''issue''))
        (raw_prop ps (ustr ''serviceAddress'')) (raw_prop ps (ustr ''callerPhone'')) =
      sms_body (escalation_sms cfg ps)"
    unfolding escalation_sms_def
    using escalate_input(2) [OF assms(1)] by (simp add: escalation_body_text)
  have m: "\<lparr>sms_from = TWILIO_FROM_NUMBER cfg, sms_to = ONCALL_PHONE cfg,
            sms_body = sms_body (escalation_sms cfg ps)\<rparr> = escalation_sms cfg ps"
    by (simp add: escalation_sms_def)
  show ?thesis
    using assms(2)
    by (simp add: escalateTool_def tool_def assms(1) escalate_execute_def r o bind_io_def
          appendEvent_ok line body m return_io_def messages_create_def Let_def
        split: option.splits)
qed

lemma scenario_a_parse:
  "z_object escalate_parameters (JObj scenario_a_args) =
     Inr [(ustr ''serviceAddress'', Val (JStr (ustr ''12 Elm St''))),
          (ustr ''issue'', Val (JStr (ustr ''burst pipe''))),
          (ustr ''reason'', Val (JStr (ustr ''emergency'')))]"
  by (simp add: z_object_def escalate_parameters_def scenario_a_args_def raw_prop_def)

lemma no_reason_parse:
  "z_object escalate_parameters (JObj []) = Inr [(ustr ''reason'', Val (JStr (ustr ''emergency'')))]"
  by (simp add: z_object_def escalate_parameters_def raw_prop_def)

lemma or_else_defined: "\<exists>j. or_else a (Val d) = Val j"
  by (cases a) (auto simp: or_else_def)

lemma transport_line:
  "event_line t (transport_event_record evt) = transport_line_of t evt"
proof -
  obtain j where j: "or_else (evt_type evt) (Val (JStr (ustr ''unknown''))) = Val j"
    using or_else_defined by blast
  then show ?thesis
    by (simp add: event_line_def transport_event_record_def obj_lit_def JSON_stringify_def
          transport_line_of_def evt_type_logged_def)
qed

lemma error_line:
  "event_line t (session_error_record txt) = error_line_of t txt"
  by (simp add: event_line_def session_error_record_def obj_lit_def JSON_stringify_def
        error_line_of_def)

lemma on_transport_event_ok:
  "fs_ok w \<Longrightarrow>
   on_transport_event evt w =
     (Inr (), appended EVENTS_FILE (transport_line_of (now w) evt) (ensured w))"
  by (simp add: on_transport_event_def appendEvent_ok transport_line)

lemma on_error_ok:
  "fs_ok w \<Longrightarrow>
   on_error to_string err w =
     (Inr (), appended EVENTS_FILE (error_line_of (now w) (to_string err)) (ensured w))"
  by (simp add: on_error_def appendEvent_ok error_line)

section \<open>send\_sms\_to\_number\<close>

text \<open>
  C1. A call whose destination is a string that does not start with \<open>+\<close> or has fewer
  than 11 code units fails with a validation error (the schema's, when the message is
  also rejected, otherwise the one \<open>assertE164\<close> throws) and leaves the world as it was:
  no event line, no gateway call. A call whose destination passes, with a message the
  schema accepts and a file system that accepts writes, appends exactly one
  \<open>sms_attempt\<close> line, holding the destination and the first 80 code units of the
  message, and that append comes before the gateway call, if there is one.
\<close>

theorem sendSms_validation_precedes_effects:
  assumes "raw_prop ps (ustr ''to'') = Val (JStr dest)"
  shows "(\<not> startsWith dest (ustr ''+'') \<or> length dest < 11 \<longrightarrow>
            sendSmsTool cfg (JObj ps) w = (Inl ZodError, w) \<or>
            sendSmsTool cfg (JObj ps) w =
              (Inl (JsError (ustr ''Phone must be E.164 format like +15551234567'')), w))
       \<and> (startsWith dest (ustr ''+'') \<and> 11 \<le> length dest \<and>
          raw_prop ps (ustr ''message'') = Val (JStr msg) \<and> length msg \<le> 480 \<and> fs_ok w \<longrightarrow>
            file_lines (snd (sendSmsTool cfg (JObj ps) w)) EVENTS_FILE =
              file_lines w EVENTS_FILE @ [sms_attempt_line_of (now w) dest msg]
          \<and> trace (snd (sendSmsTool cfg (JObj ps) w)) =
              trace w @ Appended EVENTS_FILE (sms_attempt_line_of (now w) dest msg) #
                (if gateway_unconfigured cfg then [] else [GatewayCall (sms_of cfg dest msg)]))"
proof (intro conjI impI)
  assume "\<not> startsWith dest (ustr ''+'') \<or> length dest < 11"
  then show "sendSmsTool cfg (JObj ps) w = (Inl ZodError, w) \<or>
             sendSmsTool cfg (JObj ps) w =
               (Inl (JsError (ustr ''Phone must be E.164 format like +15551234567'')), w)"
    by (rule sendSms_reject [OF assms])
next
  assume ok: "startsWith dest (ustr ''+'') \<and> 11 \<le> length dest \<and>
          raw_prop ps (ustr ''message'') = Val (JStr msg) \<and> length msg \<le> 480 \<and> fs_ok w"
  then have run: "sendSmsTool cfg (JObj ps) w =
     (let w1 = appended EVENTS_FILE (sms_attempt_line_of (now w) dest msg) (ensured w);
          w2 = w1\<lparr>trace := trace w1 @ [GatewayCall (sms_of cfg dest msg)]\<rparr>
      in if gateway_unconfigured cfg
         then (Inr (backgroundResult (ustr ''Twilio not configured; SMS skipped.'')), w1)
         else (case gateway w (sms_of cfg dest msg) of
                 None \<Rightarrow> (Inl GatewayError, w2)
               | Some sid \<Rightarrow> (Inr (backgroundResult (ustr ''SMS sent: sid='' @ sid)), w2)))"
    using sendSms_accept [OF assms, of msg w cfg] by simp
  show "file_lines (snd (sendSmsTool cfg (JObj ps) w)) EVENTS_FILE =
          file_lines w EVENTS_FILE @ [sms_attempt_line_of (now w) dest msg]"
    by (simp add: run Let_def split: option.splits)
  show "trace (snd (sendSmsTool cfg (JObj ps) w)) =
          trace w @ Appended EVENTS_FILE (sms_attempt_line_of (now w) dest msg) #
            (if gateway_unconfigured cfg then [] else [GatewayCall (sms_of cfg dest msg)])"
    by (simp add: run Let_def split: option.splits)
qed

theorem sendSms_validation_precedes_effects_witness:
  "(sendSmsTool demo_config
      (JObj [(ustr ''to'', JStr (ustr ''5551234567'')), (ustr ''message'', JStr (ustr ''On our way''))])
      demo_world = (Inl ZodError, demo_world) \<or>
    sendSmsTool demo_config
      (JObj [(ustr ''to'', JStr (ustr ''5551234567'')), (ustr ''message'', JStr (ustr ''On our way''))])
      demo_world =
        (Inl (JsError (ustr ''Phone must be E.164 format like +15551234567'')), demo_world))
   \<and> trace (snd (sendSmsTool demo_config
        (JObj [(ustr ''to'', JStr (ustr ''+15551234567'')), (ustr ''message'', JStr (ustr ''On our way''))])
        demo_world)) =
       [Appended EVENTS_FILE
          (sms_attempt_line_of (ustr ''2026-01-01T00:00:00.000Z'') (ustr ''+15551234567'') (ustr ''On our way'')),
        GatewayCall (sms_of demo_config (ustr ''+15551234567'') (ustr ''On our way''))]"
  using sendSms_validation_precedes_effects
          [of "[(ustr ''to'', JStr (ustr ''5551234567'')), (ustr ''message'', JStr (ustr ''On our way''))]"
              "ustr ''5551234567''" demo_config demo_world "ustr ''On our way''"]
        sendSms_validation_precedes_effects
          [of "[(ustr ''to'', JStr (ustr ''+15551234567'')), (ustr ''message'', JStr (ustr ''On our way''))]"
              "ustr ''+15551234567''" demo_config demo_world "ustr ''On our way''"]
  by (simp add: raw_prop_def startsWith_def gateway_unconfigured_def demo_config_def demo_world_def
        ustr_def)

text \<open>
  C9. \<open>assertE164\<close> accepts exactly the strings that start with \<open>+\<close> and have at least
  11 code units. \<open>+abcdefghij\<close> has no digit and is accepted; with it as destination
  the tool appends the attempt line and, the gateway being configured, calls the gateway
  with that destination.
\<close>

theorem assertE164_accepts_exactly:
  "(assertE164 s = Inr () \<longleftrightarrow> startsWith s (ustr ''+'') \<and> 11 \<le> length s)
   \<and> list_all (\<lambda>c. \<not> (0x30 \<le> c \<and> c \<le> 0x39)) (ustr ''+abcdefghij'')
   \<and> assertE164 (ustr ''+abcdefghij'') = Inr ()
   \<and> (raw_prop ps (ustr ''to'') = Val (JStr (ustr ''+abcdefghij'')) \<and>
      raw_prop ps (ustr ''message'') = Val (JStr msg) \<and> length msg \<le> 480 \<and> fs_ok w \<and>
      \<not> gateway_unconfigured cfg \<longrightarrow>
        trace (snd (sendSmsTool cfg (JObj ps) w)) =
          trace w @ [Appended EVENTS_FILE (sms_attempt_line_of (now w) (ustr ''+abcdefghij'') msg),
                     GatewayCall (sms_of cfg (ustr ''+abcdefghij'') msg)])"
proof (intro conjI impI)
  show "assertE164 s = Inr () \<longleftrightarrow> startsWith s (ustr ''+'') \<and> 11 \<le> length s"
    by (auto simp: assertE164_def)
  show "list_all (\<lambda>c. \<not> (0x30 \<le> c \<and> c \<le> 0x39)) (ustr ''+abcdefghij'')"
    by (simp add: ustr_def)
  show "assertE164 (ustr ''+abcdefghij'') = Inr ()"
    by (simp add: assertE164_def startsWith_def ustr_def)
next
  assume a: "raw_prop ps (ustr ''to'') = Val (JStr (ustr ''+abcdefghij'')) \<and>
      raw_prop ps (ustr ''message'') = Val (JStr msg) \<and> length msg \<le> 480 \<and> fs_ok w \<and>
      \<not> gateway_unconfigured cfg"
  have "startsWith (ustr ''+abcdefghij'') (ustr ''+'')" "11 \<le> length (ustr ''+abcdefghij'')"
    by (simp_all add: startsWith_def ustr_def)
  with a show "trace (snd (sendSmsTool cfg (JObj ps) w)) =
          trace w @ [Appended EVENTS_FILE (sms_attempt_line_of (now w) (ustr ''+abcdefghij'') msg),
                     GatewayCall (sms_of cfg (ustr ''+abcdefghij'') msg)]"
    by (simp add: sendSms_accept [of ps "ustr ''+abcdefghij''" msg w cfg] Let_def
          split: option.splits)
qed

theorem assertE164_accepts_exactly_witness:
  "assertE164 (ustr ''+abcdefghij'') = Inr ()
   \<and> trace (snd (sendSmsTool demo_config
        (JObj [(ustr ''to'', JStr (ustr ''+abcdefghij'')), (ustr ''message'', JStr (ustr ''hello''))])
        demo_world)) =
       [Appended EVENTS_FILE
          (sms_attempt_line_of (ustr ''2026-01-01T00:00:00.000Z'') (ustr ''+abcdefghij'') (ustr ''hello'')),
        GatewayCall (sms_of demo_config (ustr ''+abcdefghij'') (ustr ''hello''))]"
  using assertE164_accepts_exactly
          [of "ustr ''+abcdefghij''"
              "[(ustr ''to'', JStr (ustr ''+abcdefghij'')), (ustr ''message'', JStr (ustr ''hello''))]"
              "ustr ''hello''" demo_world demo_config]
  by (simp add: raw_prop_def gateway_unconfigured_def demo_config_def demo_world_def)

section \<open>Startup\<close>



text \<open>
  C4. After a startup in which a gateway credential (account sid, token or sender
  number) is absent, a call of send\_sms\_to\_number with an accepted destination and
  message, on a file system that accepts writes, returns the skipped result, calls the
  gateway not at all, and appends exactly one \<open>sms_attempt\<close> line.
\<close>

theorem sendSms_skipped_without_credentials:
  assumes "load_config twilio env = Configured cfg"
    and "env_missing env (ustr ''TWILIO_ACCOUNT_SID'') \<or> env_missing env (ustr ''TWILIO_AUTH_TOKEN'') \<or>
         env_missing env (ustr ''TWILIO_FROM_NUMBER'')"
    and "raw_prop ps (ustr ''to'') = Val (JStr dest)"
    and "raw_prop ps (ustr ''message'') = Val (JStr msg)" and "length msg \<le> 480"
    and "startsWith dest (ustr ''+'')" and "11 \<le> length dest" and "fs_ok w"
  shows "fst (sendSmsTool cfg (JObj ps) w) =
           Inr (backgroundResult (ustr ''Twilio not configured; SMS skipped.''))
       \<and> trace (snd (sendSmsTool cfg (JObj ps) w)) =
           trace w @ [Appended EVENTS_FILE (sms_attempt_line_of (now w) dest msg)]
       \<and> file_lines (snd (sendSmsTool cfg (JObj ps) w)) EVENTS_FILE =
           file_lines w EVENTS_FILE @ [sms_attempt_line_of (now w) dest msg]"
proof -
  have "gateway_unconfigured cfg"
    using assms(1,2) by (rule load_config_gateway_unconfigured)
  then show ?thesis
    by (simp add: sendSms_accept [OF assms(3-8)] Let_def)
qed

theorem sendSms_skipped_without_credentials_witness:
  "fst (sendSmsTool bare_config
          (JObj [(ustr ''to'', JStr (ustr ''+15551234567'')), (ustr ''message'', JStr (ustr ''On our way''))])
          demo_world) =
     Inr (backgroundResult (ustr ''Twilio not configured; SMS skipped.''))
   \<and> trace (snd (sendSmsTool bare_config
          (JObj [(ustr ''to'', JStr (ustr ''+15551234567'')), (ustr ''message'', JStr (ustr ''On our way''))])
          demo_world)) =
       [Appended EVENTS_FILE
          (sms_attempt_line_of (ustr ''2026-01-01T00:00:00.000Z'') (ustr ''+15551234567'') (ustr ''On our way''))]"
  using sendSms_skipped_without_credentials
          [OF demo_env_config,
           of "[(ustr ''to'', JStr (ustr ''+15551234567'')), (ustr ''message'', JStr (ustr ''On our way''))]"
              "ustr ''+15551234567''" "ustr ''On our way''" demo_world]
  by (simp add: env_missing_def demo_env_def raw_prop_def startsWith_def demo_world_def ustr_def)

section \<open>create\_lead\<close>

text \<open>
  C2. For arguments the schema accepts, on a file system that accepts writes,
  create\_lead draws the next value of \<open>randomUUID\<close> as id (and so uses it up), reads the
  clock for \<open>createdAt\<close>, appends exactly one line to the lead file, carrying that id,
  that timestamp, the configured business name, the source tag \<open>twilio_call\<close> and the
  urgency given or else \<open>normal\<close>, and returns the confirmation text that ends in the id.
  The world returned with the result already holds the line.
\<close>

theorem createLead_writes_one_lead:
  assumes "z_object createLead_parameters (JObj ps) = Inr input" and "fs_ok w"
  shows "\<exists>lead w'.
           createLeadTool cfg (JObj ps) w =
             (Inr (backgroundResult (ustr ''Lead stored with id '' @ uuids w (uuid_ix w))), w')
         \<and> uuid_ix w' = Suc (uuid_ix w)
         \<and> file_lines w' LEADS_FILE = file_lines w LEADS_FILE @ [JObj lead]
         \<and> file_lines w' EVENTS_FILE = file_lines w EVENTS_FILE
         \<and> trace w' = trace w @ [Appended LEADS_FILE (JObj lead)]
         \<and> map_of lead (ustr ''id'') = Some (JStr (uuids w (uuid_ix w)))
         \<and> map_of lead (ustr ''createdAt'') = Some (JStr (now w))
         \<and> map_of lead (ustr ''businessName'') = Some (JStr (BUSINESS_NAME cfg))
         \<and> map_of lead (ustr ''source'') = Some (JStr (ustr ''twilio_call''))
         \<and> map_of lead (ustr ''urgency'') =
             Some (case raw_prop ps (ustr ''urgency'') of
                     Undefined \<Rightarrow> JStr (ustr ''normal'') | Val j \<Rightarrow> j)"
proof -
  let ?lead = "stringify_props (make_lead cfg (uuids w (uuid_ix w)) (now w) input)"
  let ?w' = "appended LEADS_FILE (JObj ?lead) (ensured (w\<lparr>uuid_ix := Suc (uuid_ix w)\<rparr>))"
  have keys: "fst ` set input \<subseteq> fst ` set createLead_parameters"
    by (rule createLead_input_props(2) [OF assms(1)])
  have run: "createLeadTool cfg (JObj ps) w =
      (Inr (backgroundResult (ustr ''Lead stored with id '' @ uuids w (uuid_ix w))), ?w')"
    using createLead_run [OF assms] by (simp add: JSON_stringify_def)
  have absent: "map_of input k = None"
    if "k \<in> {ustr ''id'', ustr ''createdAt'', ustr ''businessName''}" for k
  proof -
    from that have "k \<notin> fst ` set createLead_parameters"
      by (auto simp: createLead_parameters_def)
    with keys show ?thesis by (auto simp: map_of_eq_None_iff)
  qed
  have urgency: "map_of input (ustr ''urgency'') =
      Some (Val (case raw_prop ps (ustr ''urgency'') of
                   Undefined \<Rightarrow> JStr (ustr ''normal'') | Val j \<Rightarrow> j))
      \<and> (\<exists>s. (case raw_prop ps (ustr ''urgency'') of
                   Undefined \<Rightarrow> JStr (ustr ''normal'') | Val j \<Rightarrow> j) = JStr s)"
    using parsed_urgency [OF assms(1)] by auto
  have "map_of ?lead (ustr ''id'') = Some (JStr (uuids w (uuid_ix w)))"
    by (simp add: stored_lead_lookup [OF assms(1)] absent)
  moreover have "map_of ?lead (ustr ''createdAt'') = Some (JStr (now w))"
    by (simp add: stored_lead_lookup [OF assms(1)] absent)
  moreover have "map_of ?lead (ustr ''businessName'') = Some (JStr (BUSINESS_NAME cfg))"
    by (simp add: stored_lead_lookup [OF assms(1)] absent)
  moreover have "map_of ?lead (ustr ''source'') = Some (JStr (ustr ''twilio_call''))"
    by (simp add: stored_lead_lookup [OF assms(1)])
  moreover have "map_of ?lead (ustr ''urgency'') =
             Some (case raw_prop ps (ustr ''urgency'') of
                     Undefined \<Rightarrow> JStr (ustr ''normal'') | Val j \<Rightarrow> j)"
    using urgency by (auto simp: stored_lead_lookup [OF assms(1)])
  ultimately show ?thesis
    using run by (intro exI [of _ ?lead] exI [of _ ?w']) simp
qed

theorem createLead_writes_one_lead_witness:
  "z_object createLead_parameters (JObj demo_lead_args) =
     Inr [(ustr ''callerPhone'', Val (JStr (ustr ''+15551234567''))),
          (ustr ''issue'', Val (JStr (ustr ''burst pipe''))),
          (ustr ''urgency'', Val (JStr (ustr ''normal'')))]
   \<and> fs_ok demo_world
   \<and> (\<exists>lead w'.
         createLeadTool demo_config (JObj demo_lead_args) demo_world =
           (Inr (backgroundResult (ustr ''Lead stored with id '' @ ustr ''uuid-'')), w')
       \<and> uuid_ix w' = 1
       \<and> file_lines w' LEADS_FILE = [JObj lead]
       \<and> file_lines w' EVENTS_FILE = []
       \<and> trace w' = [Appended LEADS_FILE (JObj lead)]
       \<and> map_of lead (ustr ''id'') = Some (JStr (ustr ''uuid-''))
       \<and> map_of lead (ustr ''createdAt'') = Some (JStr (ustr ''2026-01-01T00:00:00.000Z''))
       \<and> map_of lead (ustr ''businessName'') = Some (JStr (ustr ''NY Plumbing (Pilot)''))
       \<and> map_of lead (ustr ''source'') = Some (JStr (ustr ''twilio_call''))
       \<and> map_of lead (ustr ''urgency'') = Some (JStr (ustr ''normal'')))"
proof -
  have u: "raw_prop demo_lead_args (ustr ''urgency'') = Undefined"
    by (simp add: raw_prop_def demo_lead_args_def)
  have d: "uuids demo_world 0 = ustr ''uuid-''" "uuid_ix demo_world = 0"
    "now demo_world = ustr ''2026-01-01T00:00:00.000Z''" "trace demo_world = []"
    "file_lines demo_world LEADS_FILE = []" "file_lines demo_world EVENTS_FILE = []"
    "BUSINESS_NAME demo_config = ustr ''NY Plumbing (Pilot)''"
    by (simp_all add: demo_world_def demo_config_def file_lines_def)
  show ?thesis
    using createLead_writes_one_lead [OF demo_lead_args_parse demo_world_fs_ok, of demo_config]
    by (simp add: demo_lead_args_parse demo_world_fs_ok u d)
qed

text \<open>
  C10. Whatever keys the raw arguments carry, the parsed arguments hold none of \<open>id\<close>,
  \<open>createdAt\<close>, \<open>businessName\<close>, \<open>source\<close>: the schema declares none of them and an
  undeclared key is not copied. So the stored lead has the id drawn from \<open>randomUUID\<close>,
  the clock's timestamp, the configured business name and the fixed source tag.
\<close>

theorem createLead_assigned_fields_not_overridable:
  assumes "z_object createLead_parameters (JObj ps) = Inr input" and "fs_ok w"
  shows "(\<forall>k \<in> set tool_assigned_fields.
            k \<notin> fst ` set createLead_parameters \<and> map_of input k = None)
       \<and> (\<exists>lead.
            file_lines (snd (createLeadTool cfg (JObj ps) w)) LEADS_FILE =
              file_lines w LEADS_FILE @ [JObj lead]
          \<and> map_of lead (ustr ''id'') = Some (JStr (uuids w (uuid_ix w)))
          \<and> map_of lead (ustr ''createdAt'') = Some (JStr (now w))
          \<and> map_of lead (ustr ''businessName'') = Some (JStr (BUSINESS_NAME cfg))
          \<and> map_of lead (ustr ''source'') = Some (JStr (ustr ''twilio_call'')))"
proof -
  let ?lead = "stringify_props (make_lead cfg (uuids w (uuid_ix w)) (now w) input)"
  have keys: "fst ` set input \<subseteq> fst ` set createLead_parameters"
    by (rule createLead_input_props(2) [OF assms(1)])
  have undeclared: "k \<notin> fst ` set createLead_parameters" if "k \<in> set tool_assigned_fields" for k
    using that by (auto simp: createLead_parameters_def tool_assigned_fields_def)
  have absent: "map_of input k = None" if "k \<in> set tool_assigned_fields" for k
    using undeclared [OF that] keys by (auto simp: map_of_eq_None_iff)
  have a: "map_of input (ustr ''id'') = None" "map_of input (ustr ''createdAt'') = None"
    "map_of input (ustr ''businessName'') = None"
    by (simp_all add: absent tool_assigned_fields_def)
  have "file_lines (snd (createLeadTool cfg (JObj ps) w)) LEADS_FILE =
          file_lines w LEADS_FILE @ [JObj ?lead]"
    by (simp add: createLead_run [OF assms] JSON_stringify_def)
  moreover have "map_of ?lead (ustr ''id'') = Some (JStr (uuids w (uuid_ix w)))"
    "map_of ?lead (ustr ''createdAt'') = Some (JStr (now w))"
    "map_of ?lead (ustr ''businessName'') = Some (JStr (BUSINESS_NAME cfg))"
    "map_of ?lead (ustr ''source'') = Some (JStr (ustr ''twilio_call''))"
    by (simp_all add: stored_lead_lookup [OF assms(1)] a)
  ultimately show ?thesis using undeclared absent by blast
qed

theorem createLead_assigned_fields_not_overridable_witness:
  "z_object createLead_parameters (JObj forged_lead_args) =
     Inr [(ustr ''issue'', Val (JStr (ustr ''leak''))), (ustr ''urgency'', Val (JStr (ustr ''normal'')))]
   \<and> raw_prop forged_lead_args (ustr ''id'') = Val (JStr (ustr ''forged''))
   \<and> raw_prop forged_lead_args (ustr ''source'') = Val (JStr (ustr ''web''))
   \<and> (\<exists>lead.
        file_lines (snd (createLeadTool demo_config (JObj forged_lead_args) demo_world)) LEADS_FILE =
          [JObj lead]
      \<and> map_of lead (ustr ''id'') = Some (JStr (ustr ''uuid-''))
      \<and> map_of lead (ustr ''createdAt'') = Some (JStr (ustr ''2026-01-01T00:00:00.000Z''))
      \<and> map_of lead (ustr ''businessName'') = Some (JStr (ustr ''NY Plumbing (Pilot)''))
      \<and> map_of lead (ustr ''source'') = Some (JStr (ustr ''twilio_call'')))"
proof -
  have r: "raw_prop forged_lead_args (ustr ''id'') = Val (JStr (ustr ''forged''))"
    "raw_prop forged_lead_args (ustr ''source'') = Val (JStr (ustr ''web''))"
    by (simp_all add: raw_prop_def forged_lead_args_def)
  have d: "uuids demo_world (uuid_ix demo_world) = ustr ''uuid-''"
    "now demo_world = ustr ''2026-01-01T00:00:00.000Z''"
    "file_lines demo_world LEADS_FILE = []"
    "BUSINESS_NAME demo_config = ustr ''NY Plumbing (Pilot)''"
    by (simp_all add: demo_world_def demo_config_def file_lines_def)
  show ?thesis
    using createLead_assigned_fields_not_overridable
            [OF forged_lead_args_parse demo_world_fs_ok, of demo_config]
    by (simp add: forged_lead_args_parse r d)
qed

text \<open>
  C7, as the code has it. The stored lead, read back, gives for each of the six free-text
  fields the string that was supplied, and has no such field when none was supplied; it
  always has \<open>urgency\<close>, the value supplied or else \<open>normal\<close>; every field it has is a
  string, none is \<open>null\<close>; and it has no field beyond the seven declared and the four
  the tool assigns.
\<close>

theorem createLead_round_trip:
  assumes "z_object createLead_parameters (JObj ps) = Inr input" and "fs_ok w"
  shows "\<exists>lead.
           file_lines (snd (createLeadTool cfg (JObj ps) w)) LEADS_FILE =
             file_lines w LEADS_FILE @ [JObj lead]
         \<and> (\<forall>k \<in> set free_text_fields.
              map_of lead k = (case raw_prop ps k of Undefined \<Rightarrow> None | Val j \<Rightarrow> Some j))
         \<and> map_of lead (ustr ''urgency'') =
             Some (case raw_prop ps (ustr ''urgency'') of
                     Undefined \<Rightarrow> JStr (ustr ''normal'') | Val j \<Rightarrow> j)
         \<and> (\<forall>k j. map_of lead k = Some j \<longrightarrow> (\<exists>s. j = JStr s))
         \<and> fst ` set lead \<subseteq> set tool_assigned_fields \<union> fst ` set createLead_parameters"
proof -
  let ?lead = "stringify_props (make_lead cfg (uuids w (uuid_ix w)) (now w) input)"
  have line: "file_lines (snd (createLeadTool cfg (JObj ps) w)) LEADS_FILE =
          file_lines w LEADS_FILE @ [JObj ?lead]"
    by (simp add: createLead_run [OF assms] JSON_stringify_def)
  have free: "map_of ?lead k = (case raw_prop ps k of Undefined \<Rightarrow> None | Val j \<Rightarrow> Some j)"
    if "k \<in> set free_text_fields" for k
  proof -
    from that have ne: "k \<noteq> ustr ''source''" "k \<noteq> ustr ''id''" "k \<noteq> ustr ''createdAt''"
      "k \<noteq> ustr ''businessName''"
      by (auto simp: free_text_fields_def)
    from parsed_free_text [OF assms(1) that] show ?thesis
      by (auto simp: stored_lead_lookup [OF assms(1)] ne)
  qed
  have urg: "map_of ?lead (ustr ''urgency'') =
             Some (case raw_prop ps (ustr ''urgency'') of
                     Undefined \<Rightarrow> JStr (ustr ''normal'') | Val j \<Rightarrow> j)"
    using parsed_urgency [OF assms(1)] by (auto simp: stored_lead_lookup [OF assms(1)])
  have strs: "\<forall>k j. map_of ?lead k = Some j \<longrightarrow> (\<exists>s. j = JStr s)"
    using stored_lead_strings [OF assms(1)] by blast
  have "fst ` set ?lead \<subseteq> fst ` set (make_lead cfg (uuids w (uuid_ix w)) (now w) input)"
    by (rule stringify_props_keys)
  also have "\<dots> \<subseteq> set tool_assigned_fields \<union> fst ` set input"
    by (auto simp: make_lead_def obj_lit_def AList.dom_update spread_keys tool_assigned_fields_def)
  also have "\<dots> \<subseteq> set tool_assigned_fields \<union> fst ` set createLead_parameters"
    using createLead_input_props(2) [OF assms(1)] by blast
  finally have keys: "fst ` set ?lead \<subseteq> set tool_assigned_fields \<union> fst ` set createLead_parameters" .
  from line free urg strs keys show ?thesis by blast
qed

theorem createLead_round_trip_witness:
  "z_object createLead_parameters (JObj demo_lead_args) =
     Inr [(ustr ''callerPhone'', Val (JStr (ustr ''+15551234567''))),
          (ustr ''issue'', Val (JStr (ustr ''burst pipe''))),
          (ustr ''urgency'', Val (JStr (ustr ''normal'')))]
   \<and> fs_ok demo_world
   \<and> (\<exists>lead.
         file_lines (snd (createLeadTool demo_config (JObj demo_lead_args) demo_world)) LEADS_FILE =
           file_lines demo_world LEADS_FILE @ [JObj lead]
       \<and> (\<forall>k \<in> set free_text_fields.
            map_of lead k = (case raw_prop demo_lead_args k of Undefined \<Rightarrow> None | Val j \<Rightarrow> Some j))
       \<and> map_of lead (ustr ''urgency'') =
           Some (case raw_prop demo_lead_args (ustr ''urgency'') of
                   Undefined \<Rightarrow> JStr (ustr ''normal'') | Val j \<Rightarrow> j)
       \<and> (\<forall>k j. map_of lead k = Some j \<longrightarrow> (\<exists>s. j = JStr s))
       \<and> fst ` set lead \<subseteq> set tool_assigned_fields \<union> fst ` set createLead_parameters)"
  using createLead_round_trip [OF demo_lead_args_parse demo_world_fs_ok, of demo_config]
        demo_lead_args_parse demo_world_fs_ok
  by blast

text \<open>
  C7 as the claim states it fails: called with no field at all, the tool stores a lead
  that has the field \<open>urgency\<close>, which the conversation never supplied.
\<close>

theorem createLead_unsupplied_urgency_counterexample:
  "raw_prop [] (ustr ''urgency'') = Undefined
   \<and> file_lines (snd (createLeadTool demo_config (JObj []) demo_world)) LEADS_FILE =
       [JObj [(ustr ''id'', JStr (ustr ''uuid-'')),
              (ustr ''createdAt'', JStr (ustr ''2026-01-01T00:00:00.000Z'')),
              (ustr ''businessName'', JStr (ustr ''NY Plumbing (Pilot)'')),
              (ustr ''urgency'', JStr (ustr ''normal'')),
              (ustr ''source'', JStr (ustr ''twilio_call''))]]"
proof -
  have d: "uuids demo_world (uuid_ix demo_world) = ustr ''uuid-''"
    "now demo_world = ustr ''2026-01-01T00:00:00.000Z''"
    "file_lines demo_world LEADS_FILE = []"
    "BUSINESS_NAME demo_config = ustr ''NY Plumbing (Pilot)''"
    by (simp_all add: demo_world_def demo_config_def file_lines_def)
  show ?thesis
    by (simp add: createLead_run [OF empty_lead_args_parse demo_world_fs_ok] d raw_prop_def
          JSON_stringify_def make_lead_def obj_lit_def)
qed

section \<open>escalate\_to\_oncall\<close>

text \<open>
  C8. For arguments the schema accepts, on a file system that accepts writes,
  escalate\_to\_oncall first appends exactly one \<open>escalation\<close> line, whose reason is the
  one given or else \<open>emergency\<close>. Then, when the gateway is not configured, it returns
  the skipped result and calls the gateway not at all; when it is configured, it calls
  the gateway exactly once, with the configured on-call number as destination and the
  alert text as body: the mark, \<open>EMERGENCY LEAD\<close> with the business name in brackets, a
  \<open>Reason:\<close> line, and an \<open>Issue:\<close>, \<open>Address:\<close> and \<open>Caller:\<close> line for each of
  these that was given and is not empty, every line ended by a line feed. When the
  provider answers with a message sid the result is the confirmation text that ends in
  that sid.
\<close>

theorem escalate_logs_then_alerts_oncall:
  assumes "z_object escalate_parameters (JObj ps) = Inr input" and "fs_ok w"
  shows "file_lines (snd (escalateTool cfg (JObj ps) w)) EVENTS_FILE =
           file_lines w EVENTS_FILE @ [escalation_line_of (now w) ps]
       \<and> trace (snd (escalateTool cfg (JObj ps) w)) =
           trace w @ Appended EVENTS_FILE (escalation_line_of (now w) ps) #
             (if gateway_unconfigured cfg then []
              else [GatewayCall
                      \<lparr>sms_from = TWILIO_FROM_NUMBER cfg, sms_to = ONCALL_PHONE cfg,
                       sms_body =
                         [0xF0, 0x178, 0x161, 0xA8] @ ustr '' EMERGENCY LEAD ('' @
                         BUSINESS_NAME cfg @ ustr '')'' @ [0x0A] @
                         ustr ''Reason: '' @ escalation_reason ps @ [0x0A] @
                         alert_line (ustr ''Issue: '') (raw_prop ps (ustr ''issue'')) @
                         alert_line (ustr ''Address: '') (raw_prop ps (ustr ''serviceAddress'')) @
                         alert_line (ustr ''Caller: '') (raw_prop ps (ustr ''callerPhone''))\<rparr>])
       \<and> (raw_prop ps (ustr ''reason'') = Undefined \<longrightarrow> escalation_reason ps = ustr ''emergency'')
       \<and> (\<forall>s. raw_prop ps (ustr ''reason'') = Val (JStr s) \<longrightarrow> escalation_reason ps = s)
       \<and> (gateway_unconfigured cfg \<longrightarrow>
            fst (escalateTool cfg (JObj ps) w) =
              Inr (backgroundResult (ustr ''Twilio not configured; escalation SMS skipped.'')))
       \<and> (\<not> gateway_unconfigured cfg \<longrightarrow>
            (\<forall>sid. gateway w (escalation_sms cfg ps) = Some sid \<longrightarrow>
               fst (escalateTool cfg (JObj ps) w) =
                 Inr (backgroundResult (ustr ''Escalation SMS sent: sid='' @ sid))))"
proof -
  note run = escalate_run [OF assms, of cfg]
  have "file_lines (snd (escalateTool cfg (JObj ps) w)) EVENTS_FILE =
           file_lines w EVENTS_FILE @ [escalation_line_of (now w) ps]"
    by (simp add: run Let_def split: option.splits)
  moreover have "trace (snd (escalateTool cfg (JObj ps) w)) =
           trace w @ Appended EVENTS_FILE (escalation_line_of (now w) ps) #
             (if gateway_unconfigured cfg then []
              else [GatewayCall
                      \<lparr>sms_from = TWILIO_FROM_NUMBER cfg, sms_to = ONCALL_PHONE cfg,
                       sms_body =
                         [0xF0, 0x178, 0x161, 0xA8] @ ustr '' EMERGENCY LEAD ('' @
                         BUSINESS_NAME cfg @ ustr '')'' @ [0x0A] @
                         ustr ''Reason: '' @ escalation_reason ps @ [0x0A] @
                         alert_line (ustr ''Issue: '') (raw_prop ps (ustr ''issue'')) @
                         alert_line (ustr ''Address: '') (raw_prop ps (ustr ''serviceAddress'')) @
                         alert_line (ustr ''Caller: '') (raw_prop ps (ustr ''callerPhone''))\<rparr>])"
    by (simp add: run Let_def escalation_sms_def split: option.splits)
  moreover have "raw_prop ps (ustr ''reason'') = Undefined \<longrightarrow> escalation_reason ps = ustr ''emergency''"
    "\<forall>s. raw_prop ps (ustr ''reason'') = Val (JStr s) \<longrightarrow> escalation_reason ps = s"
    by (simp_all add: escalation_reason_def)
  moreover have "gateway_unconfigured cfg \<longrightarrow>
            fst (escalateTool cfg (JObj ps) w) =
              Inr (backgroundResult (ustr ''Twilio not configured; escalation SMS skipped.''))"
    by (simp add: run Let_def)
  moreover have "\<not> gateway_unconfigured cfg \<longrightarrow>
            (\<forall>sid. gateway w (escalation_sms cfg ps) = Some sid \<longrightarrow>
               fst (escalateTool cfg (JObj ps) w) =
                 Inr (backgroundResult (ustr ''Escalation SMS sent: sid='' @ sid)))"
    by (simp add: run Let_def)
  ultimately show ?thesis by blast
qed

theorem escalate_logs_then_alerts_oncall_witness:
  "trace (snd (escalateTool demo_config (JObj scenario_a_args) demo_world)) =
     [Appended EVENTS_FILE
        (JObj [(ustr ''ts'', JStr (ustr ''2026-01-01T00:00:00.000Z'')),
               (ustr ''type'', JStr (ustr ''escalation'')),
               (ustr ''reason'', JStr (ustr ''emergency'')),
               (ustr ''serviceAddress'', JStr (ustr ''12 Elm St'')),
               (ustr ''issue'', JStr (ustr ''burst pipe''))]),
      GatewayCall
        \<lparr>sms_from = ustr ''+15550002222'', sms_to = ustr ''+15550001111'',
         sms_body = [0xF0, 0x178, 0x161, 0xA8] @ ustr '' EMERGENCY LEAD (NY Plumbing (Pilot))'' @ [0x0A] @
                    ustr ''Reason: emergency'' @ [0x0A] @ ustr ''Issue: burst pipe'' @ [0x0A] @
                    ustr ''Address: 12 Elm St'' @ [0x0A]\<rparr>]
   \<and> fst (escalateTool demo_config (JObj scenario_a_args) demo_world) =
       Inr (backgroundResult (ustr ''Escalation SMS sent: sid=SM1''))
   \<and> escalation_reason [] = ustr ''emergency''
   \<and> fst (escalateTool bare_config (JObj []) demo_world) =
       Inr (backgroundResult (ustr ''Twilio not configured; escalation SMS skipped.''))
   \<and> trace (snd (escalateTool bare_config (JObj []) demo_world)) =
       [Appended EVENTS_FILE
          (JObj [(ustr ''ts'', JStr (ustr ''2026-01-01T00:00:00.000Z'')),
                 (ustr ''type'', JStr (ustr ''escalation'')),
                 (ustr ''reason'', JStr (ustr ''emergency''))])]"
  using escalate_logs_then_alerts_oncall [OF scenario_a_parse demo_world_fs_ok, of demo_config]
        escalate_logs_then_alerts_oncall [OF no_reason_parse demo_world_fs_ok, of bare_config]
  by (simp add: gateway_unconfigured_def demo_config_def bare_config_def demo_world_def
        escalation_line_of_def escalation_reason_def escalation_sms_def alert_line_def
        opt_field_def scenario_a_args_def raw_prop_def ustr_def)

section \<open>The session's listeners\<close>

text \<open>
  C5, as the code has it. Each listener does one thing, the append of its event. On a
  file system that accepts writes, the \<open>transport_event\<close> listener appends exactly one
  line with the event's \<open>type\<close> (or \<open>unknown\<close> when it has none that is truthy) and
  returns; the \<open>error\<close> listener appends exactly one line with \<open>String(err)\<close> and
  returns. When the file system rejects the write, the listener throws the failure to
  its caller and nothing is written.
\<close>

theorem listeners_append_and_propagate_faults:
  "(fs_ok w \<longrightarrow>
      fst (on_transport_event evt w) = Inr ()
    \<and> trace (snd (on_transport_event evt w)) =
        trace w @ [Appended EVENTS_FILE (transport_line_of (now w) evt)]
    \<and> file_lines (snd (on_transport_event evt w)) EVENTS_FILE =
        file_lines w EVENTS_FILE @ [transport_line_of (now w) evt]
    \<and> fst (on_error to_string err w) = Inr ()
    \<and> trace (snd (on_error to_string err w)) =
        trace w @ [Appended EVENTS_FILE (error_line_of (now w) (to_string err))]
    \<and> file_lines (snd (on_error to_string err w)) EVENTS_FILE =
        file_lines w EVENTS_FILE @ [error_line_of (now w) (to_string err)])
   \<and> (\<not> fs_ok w \<longrightarrow>
        on_transport_event evt w = (Inl FsError, w) \<and> on_error to_string err w = (Inl FsError, w))
   \<and> (\<not> truthy (evt_type evt) \<longrightarrow> evt_type_logged evt = JStr (ustr ''unknown''))
   \<and> (\<forall>s. evt_type evt = Val (JStr s) \<and> s \<noteq> [] \<longrightarrow> evt_type_logged evt = JStr s)"
proof (intro conjI impI allI)
  assume ok: "fs_ok w"
  show "fst (on_transport_event evt w) = Inr ()"
    "trace (snd (on_transport_event evt w)) =
        trace w @ [Appended EVENTS_FILE (transport_line_of (now w) evt)]"
    "file_lines (snd (on_transport_event evt w)) EVENTS_FILE =
        file_lines w EVENTS_FILE @ [transport_line_of (now w) evt]"
    by (simp_all add: on_transport_event_ok [OF ok])
  show "fst (on_error to_string err w) = Inr ()"
    "trace (snd (on_error to_string err w)) =
        trace w @ [Appended EVENTS_FILE (error_line_of (now w) (to_string err))]"
    "file_lines (snd (on_error to_string err w)) EVENTS_FILE =
        file_lines w EVENTS_FILE @ [error_line_of (now w) (to_string err)]"
    by (simp_all add: on_error_ok [OF ok])
next
  assume "\<not> fs_ok w"
  then show "on_transport_event evt w = (Inl FsError, w)" "on_error to_string err w = (Inl FsError, w)"
    by (simp_all add: on_transport_event_def on_error_def appendEvent_fault)
next
  assume "\<not> truthy (evt_type evt)"
  then show "evt_type_logged evt = JStr (ustr ''unknown'')"
    by (simp add: evt_type_logged_def or_else_def)
next
  fix s assume "evt_type evt = Val (JStr s) \<and> s \<noteq> []"
  then show "evt_type_logged evt = JStr s"
    by (simp add: evt_type_logged_def or_else_def)
qed

theorem listeners_append_and_propagate_faults_witness:
  "fs_ok demo_world \<and> \<not> fs_ok faulty_world
   \<and> trace (snd (on_transport_event media_event demo_world)) =
       [Appended EVENTS_FILE
          (JObj [(ustr ''ts'', JStr (ustr ''2026-01-01T00:00:00.000Z'')),
                 (ustr ''type'', JStr (ustr ''transport_event'')),
                 (ustr ''evtType'', JStr (ustr ''media''))])]
   \<and> trace (snd (on_error id (ustr ''socket closed'') demo_world)) =
       [Appended EVENTS_FILE
          (JObj [(ustr ''ts'', JStr (ustr ''2026-01-01T00:00:00.000Z'')),
                 (ustr ''type'', JStr (ustr ''session_error'')),
                 (ustr ''err'', JStr (ustr ''socket closed''))])]
   \<and> on_transport_event Undefined faulty_world = (Inl FsError, faulty_world)
   \<and> evt_type_logged Undefined = JStr (ustr ''unknown'')"
proof -
  have e: "evt_type media_event = Val (JStr (ustr ''media''))" "evt_type Undefined = Undefined"
    by (simp_all add: evt_type_def media_event_def raw_prop_def)
  have d: "fs_ok demo_world" "\<not> fs_ok faulty_world" "trace demo_world = []"
    "now demo_world = ustr ''2026-01-01T00:00:00.000Z''"
    by (simp_all add: demo_world_def faulty_world_def)
  show ?thesis
    using listeners_append_and_propagate_faults [of demo_world media_event id "ustr ''socket closed''"]
          listeners_append_and_propagate_faults [of faulty_world Undefined id "ustr ''socket closed''"]
    by (simp add: e d transport_line_of_def error_line_of_def)
qed

text \<open>
  C5 as the claim states it fails: on a file system that rejects writes both listeners
  throw.
\<close>

theorem listener_throws_on_log_fault_counterexample:
  "\<not> fs_ok faulty_world
   \<and> on_transport_event media_event faulty_world = (Inl FsError, faulty_world)
   \<and> on_error id (ustr ''socket closed'') faulty_world = (Inl FsError, faulty_world)"
  by (simp add: on_transport_event_def on_error_def appendEvent_fault faulty_world_def
        demo_world_def)

end
